theory Spec2Isabelle
  imports Complex_Main "HOL-Library.Sublist"
begin

section \<open>JavaScript strings\<close>

text \<open>
  File names and MIME types are \<^typ>\<open>string\<close>s. The operations below are the ones the
  source calls on them. \<open>toLowerCase\<close> maps the letters A to Z and leaves every other
  character alone (names are taken to be ASCII).
\<close>

definition lower_char :: "char \<Rightarrow> char" where
  "lower_char c =
     (case map_of (zip ''ABCDEFGHIJKLMNOPQRSTUVWXYZ'' ''abcdefghijklmnopqrstuvwxyz'') c of
        Some d \<Rightarrow> d
      | None \<Rightarrow> c)"

definition toLowerCase :: "string \<Rightarrow> string" where
  "toLowerCase s = map lower_char s"

fun startsWith :: "string \<Rightarrow> string \<Rightarrow> bool" where
  "startsWith s [] = True"
| "startsWith [] (p # ps) = False"
| "startsWith (c # cs) (p # ps) = (c = p \<and> startsWith cs ps)"

definition endsWith :: "string \<Rightarrow> string \<Rightarrow> bool" where
  "endsWith s e = (length e \<le> length s \<and> drop (length s - length e) s = e)"

fun str_includes :: "string \<Rightarrow> string \<Rightarrow> bool" where
  "str_includes [] p = (p = [])"
| "str_includes (c # cs) p = (startsWith (c # cs) p \<or> str_includes cs p)"

section \<open>Files\<close>

text \<open>
  A browser \<open>File\<close>, as far as the code reads it: its name, its MIME type and its size
  in bytes. The content is only ever handed to browser interfaces.
\<close>

record File =
  file_name :: string
  file_type :: string
  file_size :: nat

section \<open>ImageUploader: validateFile\<close>

definition validTypes :: "string list" where
  "validTypes =
     [''image/jpeg'', ''image/jpg'', ''image/png'', ''image/webp'', ''image/heic'', ''image/heif'']"

text \<open>The regular expression \<^verbatim>\<open>/\.(jpg|jpeg|png|webp|heic|heif)$/\<close>.\<close>

definition matchesImageExtension :: "string \<Rightarrow> bool" where
  "matchesImageExtension s =
     list_ex (\<lambda>e. endsWith s (''.'' @ e)) [''jpg'', ''jpeg'', ''png'', ''webp'', ''heic'', ''heif'']"

definition validateFile :: "File \<Rightarrow> string option" where
  "validateFile f =
     (let isValidType = (file_type f \<in> set validTypes
                         \<or> matchesImageExtension (toLowerCase (file_name f)))
      in if \<not> isValidType then
           Some ''Please select a valid image file (JPG, PNG, WebP, or HEIC)''
         else if file_size f > 20 * 1024 * 1024 then
           Some ''File size must be less than 20MB''
         else if file_size f < 1024 then
           Some ''File appears to be too small or corrupted''
         else None)"

text \<open>The upload constraint in the words of the specification.\<close>

definition acceptedType :: "File \<Rightarrow> bool" where
  "acceptedType f \<longleftrightarrow>
     file_type f \<in> {''image/jpeg'', ''image/jpg'', ''image/png'', ''image/webp'',
                    ''image/heic'', ''image/heif''}
     \<or> (\<exists>e \<in> {''.jpg'', ''.jpeg'', ''.png'', ''.webp'', ''.heic'', ''.heif''}.
           suffix e (toLowerCase (file_name f)))"

section \<open>JavaScript numbers and arrays\<close>

text \<open>
  Counts, pixel dimensions and byte sizes are integers. A \<open>number\<close> that comes out of a
  division is a rational, or one of the three special values of the language. Where such
  a number is only compared with thresholds (the aspect ratio, the size in megabytes) the
  exact quotient is used and decimal literals are read exactly. Where it decides a pixel
  (the canvas size of \<open>optimizeImageSize\<close>) rounding to a double can change the result and
  is a parameter of the model.
\<close>

datatype jsnum = Num rat | PosInf | NegInf | NaN

text \<open>\<open>a / b\<close> for non-negative integers \<open>a\<close> and \<open>b\<close>.\<close>

definition js_div :: "nat \<Rightarrow> nat \<Rightarrow> jsnum" where
  "js_div a b =
     (if b = 0 then (if a = 0 then NaN else PosInf) else Num (rat_of_nat a / rat_of_nat b))"

text \<open>Comparisons of a number with a finite constant; every comparison with NaN is false.\<close>

fun num_ge :: "jsnum \<Rightarrow> rat \<Rightarrow> bool" where
  "num_ge (Num q) c = (q \<ge> c)"
| "num_ge PosInf c = True"
| "num_ge NegInf c = False"
| "num_ge NaN c = False"

fun num_le :: "jsnum \<Rightarrow> rat \<Rightarrow> bool" where
  "num_le (Num q) c = (q \<le> c)"
| "num_le PosInf c = False"
| "num_le NegInf c = True"
| "num_le NaN c = False"

fun num_lt :: "jsnum \<Rightarrow> rat \<Rightarrow> bool" where
  "num_lt (Num q) c = (q < c)"
| "num_lt PosInf c = False"
| "num_lt NegInf c = True"
| "num_lt NaN c = False"

fun num_gt :: "jsnum \<Rightarrow> rat \<Rightarrow> bool" where
  "num_gt (Num q) c = (q > c)"
| "num_gt PosInf c = True"
| "num_gt NegInf c = False"
| "num_gt NaN c = False"

text \<open>
  \<open>Array.prototype.slice(start, end)\<close> for integer arguments: a negative index counts
  from the end of the array, and both indices are clamped to the array.
\<close>

definition slice_index :: "nat \<Rightarrow> int \<Rightarrow> nat" where
  "slice_index len i = (if i < 0 then nat (max (int len + i) 0) else min (nat i) len)"

definition slice :: "'a list \<Rightarrow> int \<Rightarrow> int \<Rightarrow> 'a list" where
  "slice xs start stop =
     (let k = slice_index (length xs) start;
          final = slice_index (length xs) stop
      in take (final - k) (drop k xs))"

section \<open>promptGeneration: the records\<close>

datatype gender = GenderMale | GenderFemale | GenderUnknown
datatype ageGroup = AgeYoung | AgeAdult | AgeMature | AgeUnknown
datatype attire = AttireCasual | AttireBusiness | AttireFormal | AttireUnknown
datatype setting = SettingIndoor | SettingOutdoor | SettingStudio | SettingUnknown
datatype quality = QualityHigh | QualityMedium | QualityLow

record PersonAnalysis =
  gender :: gender
  ageGroup :: ageGroup
  attire :: attire
  setting :: setting
  quality :: quality

record ImageMetadata =
  width :: nat
  height :: nat
  aspectRatio :: jsnum
  format :: string
  size_bytes :: nat
  hasTransparency :: "bool option"

section \<open>promptGeneration: generateHeadshotPrompts and generateBatchPrompts\<close>

record styleVariation =
  sv_name :: string
  sv_background :: string
  sv_attire :: string
  sv_lighting :: string
  sv_mood :: string
  sv_style :: string

definition qualitySettings :: string where
  "qualitySettings =
     ''high resolution, studio photography, professional lighting, sharp focus, clean composition''"

definition styleVariations :: "styleVariation list" where
  "styleVariations =
     [\<lparr>sv_name = ''Corporate Executive'',
       sv_background = ''clean white background'',
       sv_attire = ''formal business suit'',
       sv_lighting = ''professional studio lighting with soft shadows'',
       sv_mood = ''confident and approachable expression'',
       sv_style = ''corporate headshot photography style''\<rparr>,
      \<lparr>sv_name = ''Creative Professional'',
       sv_background = ''subtle gradient background'',
       sv_attire = ''modern business attire'',
       sv_lighting = ''warm natural lighting'',
       sv_mood = ''friendly and creative expression'',
       sv_style = ''contemporary portrait photography''\<rparr>,
      \<lparr>sv_name = ''LinkedIn Profile'',
       sv_background = ''soft blue professional background'',
       sv_attire = ''business casual outfit'',
       sv_lighting = ''even studio lighting'',
       sv_mood = ''professional smile and direct eye contact'',
       sv_style = ''social media profile photography''\<rparr>,
      \<lparr>sv_name = ''Executive Portrait'',
       sv_background = ''neutral gray backdrop'',
       sv_attire = ''premium business formal wear'',
       sv_lighting = ''dramatic professional lighting'',
       sv_mood = ''serious and trustworthy demeanor'',
       sv_style = ''executive portrait photography''\<rparr>,
      \<lparr>sv_name = ''Approachable Professional'',
       sv_background = ''soft warm background blur'',
       sv_attire = ''smart casual business attire'',
       sv_lighting = ''soft diffused lighting'',
       sv_mood = ''warm smile and engaging expression'',
       sv_style = ''lifestyle business photography''\<rparr>,
      \<lparr>sv_name = ''Tech Professional'',
       sv_background = ''minimalist clean background'',
       sv_attire = ''modern business casual'',
       sv_lighting = ''crisp even lighting'',
       sv_mood = ''innovative and focused expression'',
       sv_style = ''tech industry headshot style''\<rparr>]"

text \<open>The template literal of the \<open>map\<close> callback.\<close>

definition stylePrompt :: "styleVariation \<Rightarrow> string" where
  "stylePrompt s =
     ''Professional headshot transformation: '' @ sv_background s @ '', wearing '' @ sv_attire s
     @ '', '' @ sv_lighting s @ '', '' @ sv_mood s @ '', '' @ sv_style s @ '', '' @ qualitySettings
     @ '', maintain original facial features and identity, photorealistic transformation, 85mm lens, commercial photography quality''"

definition generateHeadshotPrompts :: "PersonAnalysis \<Rightarrow> ImageMetadata \<Rightarrow> int \<Rightarrow> string list" where
  "generateHeadshotPrompts analysis metadata count =
     (let selectedStyles = slice styleVariations 0 (min count (int (length styleVariations)))
      in map stylePrompt selectedStyles)"

section \<open>promptGeneration: calculateQualityScore and getImageRecommendations\<close>

text \<open>
  The function adds five terms to \<open>score\<close>, one per commented block of the source; each
  block is a definition here.
\<close>

definition resolutionScore :: "ImageMetadata \<Rightarrow> nat" where
  "resolutionScore metadata =
     (if width metadata \<ge> 1024 \<and> height metadata \<ge> 1024 then 40
      else if width metadata \<ge> 512 \<and> height metadata \<ge> 512 then 25
      else 10)"

definition aspectRatioScore :: "ImageMetadata \<Rightarrow> nat" where
  "aspectRatioScore metadata =
     (let r = aspectRatio metadata
      in if num_ge r (75 / 100) \<and> num_le r (133 / 100) then 20
         else if num_ge r (5 / 10) \<and> num_le r 2 then 10
         else 5)"

definition qualityAssessmentScore :: "PersonAnalysis \<Rightarrow> nat" where
  "qualityAssessmentScore analysis =
     (if quality analysis = QualityHigh then 20
      else if quality analysis = QualityMedium then 15
      else 5)"

definition fileSizeScore :: "ImageMetadata \<Rightarrow> nat" where
  "fileSizeScore metadata =
     (let sizeMB = rat_of_nat (size_bytes metadata) / (1024 * 1024)
      in if sizeMB \<ge> 5 / 10 \<and> sizeMB \<le> 5 then 10
         else if sizeMB \<ge> 1 / 10 \<and> sizeMB \<le> 10 then 5
         else 0)"

definition professionalContextBonus :: "PersonAnalysis \<Rightarrow> nat" where
  "professionalContextBonus analysis =
     (if attire analysis = AttireBusiness \<or> attire analysis = AttireFormal then 10
      else if attire analysis = AttireCasual then 5
      else 0)"

definition calculateQualityScore :: "PersonAnalysis \<Rightarrow> ImageMetadata \<Rightarrow> nat" where
  "calculateQualityScore analysis metadata =
     (let score = 0;
          score = score + resolutionScore metadata;
          score = score + aspectRatioScore metadata;
          score = score + qualityAssessmentScore analysis;
          score = score + fileSizeScore metadata;
          score = score + professionalContextBonus analysis
      in min 100 score)"

record batchMetadata =
  suggestedStyles :: "string list"
  qualityScore :: nat

record batchPrompts =
  prompts :: "string list"
  metadata :: batchMetadata

definition generateBatchPrompts :: "PersonAnalysis \<Rightarrow> ImageMetadata \<Rightarrow> int \<Rightarrow> batchPrompts" where
  "generateBatchPrompts analysis md batchSize =
     (let ps = generateHeadshotPrompts analysis md batchSize;
          score = calculateQualityScore analysis md;
          styles = slice [''Corporate Executive'', ''Creative Professional'',
                          ''LinkedIn Profile'', ''Executive Portrait''] 0 batchSize
      in \<lparr>prompts = ps, metadata = \<lparr>suggestedStyles = styles, qualityScore = score\<rparr>\<rparr>)"

definition getImageRecommendations :: "PersonAnalysis \<Rightarrow> ImageMetadata \<Rightarrow> string list" where
  "getImageRecommendations analysis md =
     (if calculateQualityScore analysis md < 70 then
        (if width md < 512 \<or> height md < 512
         then [''Use a higher resolution image (at least 512x512 pixels) for better results'']
         else [])
        @ (if quality analysis = QualityLow
           then [''Try using a clearer, well-lit photo for optimal AI generation'']
           else [])
        @ (if num_lt (aspectRatio md) (5 / 10) \<or> num_gt (aspectRatio md) 2
           then [''Use a portrait or square-oriented photo that focuses on the face'']
           else [])
        @ (if attire analysis = AttireUnknown
           then [''Wearing professional attire in the photo will improve headshot results'']
           else [])
      else [])"

section \<open>Printing numbers\<close>

text \<open>The decimal digits a template literal prints for a non-negative integer.\<close>

definition digit_char :: "nat \<Rightarrow> char" where
  "digit_char d = ''0123456789'' ! (d mod 10)"

function string_of_nat :: "nat \<Rightarrow> string" where
  "string_of_nat n =
     (if n < 10 then [digit_char n] else string_of_nat (n div 10) @ [digit_char (n mod 10)])"
  by pat_completeness auto
termination
  by (relation "measure id") auto

declare string_of_nat.simps [simp del]

section \<open>HeadshotGenerator: data\<close>

record GeneratedImage =
  gi_url :: string
  gi_style :: string
  gi_prompt :: string
  gi_index :: nat

text \<open>
  The \<open>imageData\<close> property, with the fields the generator reads.
\<close>

record ProcessedImageData =
  pid_file :: File
  pid_url :: string
  pid_metadata :: ImageMetadata
  pid_analysis :: PersonAnalysis

text \<open>The argument of \<open>blink.ai.modifyImage\<close>.\<close>

record modify_request =
  req_images :: "string list"
  req_prompt :: string
  req_quality :: string
  req_n :: nat

text \<open>
  What the service answers: the call throws, or it returns \<open>data\<close>, the list of the
  generated images' URLs.
\<close>

datatype api_response = ApiFailure string | ApiData "string list"

text \<open>
  The hosted services are parameters. \<open>modifyImage k r\<close> is the answer to request \<open>r\<close>
  when \<open>k\<close> requests were issued before it in the same run; \<open>storageUpload\<close> returns
  the public URL, or \<open>None\<close> when the upload throws.
\<close>

record services =
  modifyImage :: "nat \<Rightarrow> modify_request \<Rightarrow> api_response"
  storageUpload :: "File \<Rightarrow> string \<Rightarrow> string option"
  dateNow :: nat

datatype toast_kind = ToastLoading | ToastSuccess | ToastError

text \<open>
  What a run does to the outside, in order. \<open>BatchCall\<close> holds the requests issued
  together and awaited with \<open>Promise.all\<close>; \<open>SingleCall\<close> is a request that is awaited
  alone; \<open>Sleep\<close> is the wait of a \<open>setTimeout\<close> promise, in milliseconds.
\<close>

datatype effect =
    Toast toast_kind string
  | Upload File string
  | BatchCall "modify_request list"
  | SingleCall modify_request
  | Sleep nat

datatype js_error = Error string | TypeError string | ReferenceError string

text \<open>The state of the component; the progress bar is left out.\<close>

record generator_state =
  generatedImages :: "GeneratedImage list"
  isGenerating :: bool
  imageCount :: nat
  currentBatch :: nat

text \<open>The local variables of a run that the loops change.\<close>

record run_state =
  images :: "GeneratedImage list"
  calls :: nat
  effects :: "effect list"

section \<open>HeadshotGenerator: generateHeadshots\<close>

definition batchSize :: nat where
  "batchSize = 2"

definition makeRequest :: "string \<Rightarrow> string \<Rightarrow> modify_request" where
  "makeRequest imageUrl p =
     \<lparr>req_images = [imageUrl],
      req_prompt = ''Generate professional business headshot with studio lighting for this person. '' @ p,
      req_quality = ''high'',
      req_n = 1\<rparr>"

text \<open>\<^verbatim>\<open>metadata.suggestedStyles[actualIndex] || `Style ${actualIndex + 1}`\<close>\<close>

definition styleLabel :: "string list \<Rightarrow> nat \<Rightarrow> string" where
  "styleLabel styles actualIndex =
     (if actualIndex < length styles \<and> styles ! actualIndex \<noteq> []
      then styles ! actualIndex
      else ''Style '' @ string_of_nat (actualIndex + 1))"

text \<open>
  One request and the image built from its answer. The promise is rejected when the call
  throws, and when \<open>data[0]\<close> is undefined, since reading its \<open>url\<close> throws.
\<close>

definition requestHeadshot ::
  "services \<Rightarrow> nat \<Rightarrow> string \<Rightarrow> string list \<Rightarrow> string \<Rightarrow> nat \<Rightarrow> js_error + GeneratedImage" where
  "requestHeadshot svc k imageUrl styles p actualIndex =
     (case modifyImage svc k (makeRequest imageUrl p) of
        ApiFailure e \<Rightarrow> Inl (Error e)
      | ApiData [] \<Rightarrow> Inl (TypeError ''data[0] is undefined'')
      | ApiData (u # us) \<Rightarrow>
          Inr \<lparr>gi_url = u, gi_style = styleLabel styles actualIndex, gi_prompt = p,
                gi_index = actualIndex\<rparr>)"

text \<open>
  \<open>Promise.all\<close>: the results in order when every promise is fulfilled, \<open>None\<close> when one
  is rejected (the source does not look at the error).
\<close>

fun promise_all :: "('e + 'a) list \<Rightarrow> 'a list option" where
  "promise_all [] = Some []"
| "promise_all (Inl e # rs) = None"
| "promise_all (Inr x # rs) = map_option ((#) x) (promise_all rs)"

text \<open>
  The retry loop over \<open>batchPrompts.entries()\<close>. The \<open>catch\<close> block of an item logs
  \<^verbatim>\<open>actualIndex + 1\<close>, but \<open>actualIndex\<close> is a \<open>const\<close> of the \<open>try\<close> block and is not in
  scope there: evaluating it throws a ReferenceError, which leaves the loop.
\<close>

fun retryIndividually ::
  "services \<Rightarrow> string \<Rightarrow> string list \<Rightarrow> nat \<Rightarrow> (nat \<times> string) list \<Rightarrow> run_state
   \<Rightarrow> js_error option \<times> run_state" where
  "retryIndividually svc imageUrl styles i [] st = (None, st)"
| "retryIndividually svc imageUrl styles i ((batchIndex, p) # rest) st =
     (let actualIndex = i + batchIndex;
          st1 = st\<lparr>calls := calls st + 1,
                   effects := effects st @ [SingleCall (makeRequest imageUrl p)]\<rparr>
      in case requestHeadshot svc (calls st) imageUrl styles p actualIndex of
           Inr img \<Rightarrow>
             retryIndividually svc imageUrl styles i rest (st1\<lparr>images := images st1 @ [img]\<rparr>)
         | Inl individualError \<Rightarrow> (Some (ReferenceError ''actualIndex is not defined''), st1))"

text \<open>
  One turn of the batch loop, up to the delay: the requests of the batch are issued
  together; when one of them is rejected, \<open>Promise.all\<close> rejects and the batch is retried
  item by item.
\<close>

definition processBatch ::
  "services \<Rightarrow> string \<Rightarrow> string list \<Rightarrow> nat \<Rightarrow> string list \<Rightarrow> run_state
   \<Rightarrow> js_error option \<times> run_state" where
  "processBatch svc imageUrl styles i batchPrompts st =
     (let entries = enumerate 0 batchPrompts;
          batchResults =
            map (\<lambda>(batchIndex, p).
                   requestHeadshot svc (calls st + batchIndex) imageUrl styles p (i + batchIndex))
                entries;
          st1 = st\<lparr>calls := calls st + length batchPrompts,
                   effects := effects st @ [BatchCall (map (makeRequest imageUrl) batchPrompts)]\<rparr>
      in case promise_all batchResults of
           Some imgs \<Rightarrow> (None, st1\<lparr>images := images st1 @ imgs\<rparr>)
         | None \<Rightarrow> retryIndividually svc imageUrl styles i entries st1)"

function processBatches ::
  "services \<Rightarrow> string \<Rightarrow> string list \<Rightarrow> string list \<Rightarrow> nat \<Rightarrow> run_state
   \<Rightarrow> js_error option \<times> run_state" where
  "processBatches svc imageUrl ps styles i st =
     (if i < length ps then
        (case processBatch svc imageUrl styles i (slice ps (int i) (int (i + batchSize))) st of
           (Some e, st1) \<Rightarrow> (Some e, st1)
         | (None, st1) \<Rightarrow>
             processBatches svc imageUrl ps styles (i + batchSize)
               (if i + batchSize < length ps
                then st1\<lparr>effects := effects st1 @ [Sleep 500]\<rparr>
                else st1))
      else (None, st))"
  by pat_completeness auto
termination
  by (relation "measure (\<lambda>(svc, imageUrl, ps, styles, i, st). length ps - i)")
    (auto simp: batchSize_def)

declare processBatches.simps [simp del]

text \<open>
  The URL handed to the service: the image's own when it is an HTTPS URL, the public URL
  of a fresh upload otherwise. \<open>None\<close> when the upload throws.
\<close>

definition httpsUrl :: "services \<Rightarrow> ProcessedImageData \<Rightarrow> string option \<times> effect list" where
  "httpsUrl svc imageData =
     (if \<not> startsWith (pid_url imageData) ''https://'' then
        (let path = ''headshots/'' @ string_of_nat (dateNow svc) @ ''-''
                    @ file_name (pid_file imageData)
         in (storageUpload svc (pid_file imageData) path, [Upload (pid_file imageData) path]))
      else (Some (pid_url imageData), []))"

definition generateHeadshots ::
  "services \<Rightarrow> ProcessedImageData option \<Rightarrow> generator_state \<Rightarrow> generator_state \<times> effect list" where
  "generateHeadshots svc imageData s =
     (case imageData of
        None \<Rightarrow> (s, [Toast ToastError ''Please upload an image first''])
      | Some d \<Rightarrow>
          (let count = imageCount s;
               s1 = s\<lparr>isGenerating := True, currentBatch := currentBatch s + 1\<rparr>;
               loading = Toast ToastLoading
                 (''Transforming your photo into '' @ string_of_nat count
                  @ '' professional headshots...'');
               failed = Toast ToastError ''Failed to generate headshots. Please try again.'';
               (imageUrl, uploads) = httpsUrl svc d
           in case imageUrl of
                None \<Rightarrow> (s1\<lparr>isGenerating := False\<rparr>, [loading] @ uploads @ [failed])
              | Some u \<Rightarrow>
                  (let batch = generateBatchPrompts (pid_analysis d) (pid_metadata d) (int count);
                       (err, st) =
                         processBatches svc u (prompts batch) (suggestedStyles (metadata batch)) 0
                           \<lparr>images = [], calls = 0, effects = [loading] @ uploads\<rparr>;
                       thrown =
                         (case err of
                            Some e \<Rightarrow> Some e
                          | None \<Rightarrow>
                              if images st = [] then Some (Error ''Failed to generate any headshots'')
                              else None)
                   in case thrown of
                        Some e \<Rightarrow> (s1\<lparr>isGenerating := False\<rparr>, effects st @ [failed])
                      | None \<Rightarrow>
                          (s1\<lparr>generatedImages := generatedImages s1 @ images st,
                              isGenerating := False\<rparr>,
                           effects st @
                           [Toast ToastSuccess
                              (''Successfully transformed your photo into ''
                               @ string_of_nat (length (images st))
                               @ '' professional headshots!'')]))))"

section \<open>HeadshotGenerator: regenerateImage\<close>


text \<open>The requests a trace sends to the image-modification service, in order.\<close>

fun requests_of :: "effect list \<Rightarrow> modify_request list" where
  "requests_of [] = []"
| "requests_of (BatchCall rs # es) = rs @ requests_of es"
| "requests_of (SingleCall r # es) = r # requests_of es"
| "requests_of (e # es) = requests_of es"


section \<open>imageProcessing: the browser\<close>

text \<open>
  The image utilities talk to the browser: they load a file into an \<open>Image\<close>, draw it on
  a canvas, ask the canvas for a PNG blob, and call the \<open>heic2any\<close> library. What the
  browser answers is a parameter of the model. Time is counted in milliseconds; a timer
  set with \<open>setTimeout(f, d)\<close> runs \<open>f\<close> after \<open>d\<close> milliseconds.
\<close>

text \<open>
  What happens after \<open>img.src\<close> is set: \<open>onload\<close> runs after some time with the decoded
  width and height, or \<open>onerror\<close> runs after some time, or neither ever runs. The last
  case is an executor that throws before the image starts to load.
\<close>

datatype image_event =
    Onload nat nat nat
  | Onerror nat
  | NoEvent
  | SetupThrows string

text \<open>
  What the canvas does inside \<open>onload\<close>: there is no 2d context, or the handler throws,
  or \<open>toBlob\<close> calls back after some time with a blob (its size) or with null, or
  \<open>toBlob\<close> never calls back.
\<close>

datatype canvas_event =
    NoContext
  | DrawThrows string
  | BlobCallback nat "nat option"
  | NoCallback

text \<open>
  What the dynamic import and the call of \<open>heic2any\<close> do: after some time they return one
  blob or an array of blobs (sizes), or they throw (with the message of the error when
  it has one), or they never settle.
\<close>

datatype heic_result =
    HeicBlob nat nat
  | HeicBlobs nat "nat list"
  | HeicThrows nat "string option"
  | HeicPending

text \<open>
  Assigning a number to \<open>canvas.width\<close> or \<open>canvas.height\<close>. The attributes are of type
  \<open>unsigned long\<close>: NaN and the infinities become 0, a finite number is truncated towards
  zero and taken modulo \<open>2^32\<close>. They reflect the content attributes of the element, which
  hold values up to \<open>2^31 - 1\<close> only: a larger value is replaced by the default of the
  attribute, 300 for the width and 150 for the height.
\<close>

fun toUnsignedLong :: "jsnum \<Rightarrow> nat" where
  "toUnsignedLong (Num q) = nat ((if q \<ge> 0 then \<lfloor>q\<rfloor> else \<lceil>q\<rceil>) mod 2 ^ 32)"
| "toUnsignedLong x = 0"

definition canvasAttribute :: "nat \<Rightarrow> jsnum \<Rightarrow> nat" where
  "canvasAttribute dflt x =
     (let v = toUnsignedLong x in if v \<le> 2147483647 then v else dflt)"

definition setCanvasSize :: "jsnum \<Rightarrow> jsnum \<Rightarrow> nat \<times> nat" where
  "setCanvasSize w h = (canvasAttribute 300 w, canvasAttribute 150 h)"

text \<open>
  \<open>imageLoad k f\<close> is the fate of the \<open>k\<close>-th image load of a run, of file \<open>f\<close>;
  \<open>canvasToBlob k (w, h)\<close> that of the canvas of this load, of width \<open>w\<close> and height
  \<open>h\<close>; \<open>heic2any k f\<close> that of the \<open>k\<close>-th library call. \<open>toDouble\<close> rounds the exact
  result of an arithmetic operation to the double the engine computes.
\<close>

record browser =
  imageLoad :: "nat \<Rightarrow> File \<Rightarrow> image_event"
  canvasToBlob :: "nat \<Rightarrow> nat \<times> nat \<Rightarrow> canvas_event"
  heic2any :: "nat \<Rightarrow> File \<Rightarrow> heic_result"
  toDouble :: "rat \<Rightarrow> rat"

text \<open>The clock and the numbers of image loads and library calls made so far.\<close>

record world =
  now :: nat
  loads :: nat
  heicCalls :: nat

section \<open>imageProcessing: promises\<close>

datatype 'a outcome = Resolved 'a | Rejected string

text \<open>
  A promise settles once: the first call of \<open>resolve\<close> or \<open>reject\<close> wins. Each handler
  that can settle the promise is given as the time and the outcome of its call, or
  \<open>None\<close> when it never runs. A promise nobody settles stays pending: \<open>None\<close>. Of two
  calls at the same millisecond the one listed first wins.
\<close>

type_synonym 'a settlement = "nat \<times> 'a outcome"

fun first_settled :: "'a settlement option list \<Rightarrow> 'a settlement option" where
  "first_settled [] = None"
| "first_settled (None # cs) = first_settled cs"
| "first_settled (Some (t, r) # cs) =
     (case first_settled cs of
        None \<Rightarrow> Some (t, r)
      | Some (t', r') \<Rightarrow> if t' < t then Some (t', r') else Some (t, r))"

fun on_load :: "image_event \<Rightarrow> (nat \<Rightarrow> nat \<Rightarrow> nat \<Rightarrow> 'a settlement option) \<Rightarrow> 'a settlement option" where
  "on_load (Onload t w h) handler = handler t w h"
| "on_load ev handler = None"

fun on_error :: "image_event \<Rightarrow> 'a outcome \<Rightarrow> 'a settlement option" where
  "on_error (Onerror t) r = Some (t, r)"
| "on_error ev r = None"

definition timer :: "nat \<Rightarrow> 'a outcome \<Rightarrow> 'a settlement option" where
  "timer d r = Some (d, r)"

text \<open>
  An asynchronous function takes the world at its call and returns its outcome with the
  world at its settlement, or \<open>None\<close> when it never settles.
\<close>

type_synonym 'a async = "world \<Rightarrow> ('a outcome \<times> world) option"

text \<open>The promise of an image load, started in world \<open>w\<close>.\<close>

definition load_promise :: "'a settlement option \<Rightarrow> 'a async" where
  "load_promise p w =
     (case p of
        None \<Rightarrow> None
      | Some (t, r) \<Rightarrow> Some (r, w\<lparr>now := now w + t, loads := loads w + 1\<rparr>))"

text \<open>\<open>await\<close>: a rejection of the awaited promise is thrown on.\<close>

definition await :: "'a async \<Rightarrow> ('a \<Rightarrow> 'b async) \<Rightarrow> 'b async" where
  "await m k w =
     (case m w of
        None \<Rightarrow> None
      | Some (Rejected e, w') \<Rightarrow> Some (Rejected e, w')
      | Some (Resolved x, w') \<Rightarrow> k x w')"

text \<open>\<open>try { return await m } catch (error) { handler }\<close>\<close>

definition try_catch :: "'a async \<Rightarrow> (string \<Rightarrow> 'a async) \<Rightarrow> 'a async" where
  "try_catch m handler w =
     (case m w of
        None \<Rightarrow> None
      | Some (Rejected e, w') \<Rightarrow> handler e w'
      | Some (Resolved x, w') \<Rightarrow> Some (Resolved x, w'))"

definition throw :: "string \<Rightarrow> 'a async" where
  "throw msg w = Some (Rejected msg, w)"

section \<open>imageProcessing: validateImageFile and isHeicFile\<close>

fun validateImageFile_promise :: "image_event \<Rightarrow> bool settlement option" where
  "validateImageFile_promise (SetupThrows msg) = Some (0, Resolved False)"
| "validateImageFile_promise ev =
     first_settled
       [on_load ev (\<lambda>t w h. Some (t, Resolved (w > 0 \<and> h > 0))),
        on_error ev (Resolved False),
        timer 5000 (Resolved False)]"

definition validateImageFile :: "browser \<Rightarrow> File \<Rightarrow> bool async" where
  "validateImageFile br file w =
     load_promise (validateImageFile_promise (imageLoad br (loads w) file)) w"

definition isHeicFile :: "File \<Rightarrow> bool" where
  "isHeicFile file =
     (let isHeicType = (file_type file = ''image/heic'' \<or> file_type file = ''image/heif'');
          isHeicExtension = (endsWith (toLowerCase (file_name file)) ''.heic''
                             \<or> endsWith (toLowerCase (file_name file)) ''.heif'')
      in isHeicType \<or> isHeicExtension)"

section \<open>imageProcessing: the HEIC conversions\<close>

text \<open>\<^verbatim>\<open>name.replace(/\.(heic|heif)$/i, '.png')\<close>\<close>

definition replaceHeicExtension :: "string \<Rightarrow> string" where
  "replaceHeicExtension name =
     (if endsWith (toLowerCase name) ''.heic'' \<or> endsWith (toLowerCase name) ''.heif''
      then take (length name - 5) name @ ''.png''
      else name)"

text \<open>
  \<^verbatim>\<open>name.replace(/\.[^/.]+$/, '.png')\<close>: the match starts at the last dot of the name, when
  at least one character follows it and no slash does.
\<close>

definition afterLastDot :: "string \<Rightarrow> string" where
  "afterLastDot name = rev (takeWhile (\<lambda>c. c \<noteq> CHR ''.'') (rev name))"

definition hasExtension :: "string \<Rightarrow> bool" where
  "hasExtension name \<longleftrightarrow>
     CHR ''.'' \<in> set name \<and> afterLastDot name \<noteq> [] \<and> CHR ''/'' \<notin> set (afterLastDot name)"

definition replaceExtension :: "string \<Rightarrow> string" where
  "replaceExtension name =
     (if hasExtension name
      then take (length name - length (afterLastDot name) - 1) name @ ''.png''
      else name)"

text \<open>\<^verbatim>\<open>new File([blob], name, { type })\<close>, for a blob of the given size.\<close>

definition newFile :: "nat \<Rightarrow> string \<Rightarrow> string \<Rightarrow> File" where
  "newFile blob name type = \<lparr>file_name = name, file_type = type, file_size = blob\<rparr>"

text \<open>
  \<open>convertHeicToPng\<close>. Of an array of blobs the first is taken; of an empty array that
  is \<open>undefined\<close>, which the \<open>File\<close> constructor turns into the nine characters of its
  name. Whatever is thrown is caught and thrown again with the \<open>HEIC_CONVERSION_FAILED\<close>
  message.
\<close>

definition convertHeicToPng :: "browser \<Rightarrow> File \<Rightarrow> File async" where
  "convertHeicToPng br file w =
     (let pngName = replaceHeicExtension (file_name file);
          after = (\<lambda>t. w\<lparr>now := now w + t, heicCalls := heicCalls w + 1\<rparr>)
      in case heic2any br (heicCalls w) file of
           HeicPending \<Rightarrow> None
         | HeicBlob t blob \<Rightarrow> Some (Resolved (newFile blob pngName ''image/png''), after t)
         | HeicBlobs t blobs \<Rightarrow>
             Some (Resolved (newFile (case blobs of [] \<Rightarrow> 9 | b # bs \<Rightarrow> b) pngName ''image/png''),
                   after t)
         | HeicThrows t message \<Rightarrow>
             Some (Rejected
                     (''HEIC_CONVERSION_FAILED: ''
                      @ (case message of
                           Some m \<Rightarrow> m
                         | None \<Rightarrow> ''HEIC format not supported in this browser'')
                      @ ''. Please convert your image to JPEG or PNG format on your device before uploading.''),
                   after t))"

fun tryNativeHeicConversion_promise ::
  "File \<Rightarrow> image_event \<Rightarrow> (nat \<times> nat \<Rightarrow> canvas_event) \<Rightarrow> File settlement option" where
  "tryNativeHeicConversion_promise file (SetupThrows msg) cv = Some (0, Rejected msg)"
| "tryNativeHeicConversion_promise file ev cv =
     first_settled
       [on_load ev (\<lambda>t w h.
          case cv (setCanvasSize (Num (rat_of_nat w)) (Num (rat_of_nat h))) of
            DrawThrows msg \<Rightarrow> Some (t, Rejected msg)
          | NoContext \<Rightarrow> Some (t, Rejected ''Canvas context not available'')
          | BlobCallback d (Some blob) \<Rightarrow>
              Some (t + d, Resolved (newFile blob (replaceHeicExtension (file_name file)) ''image/png''))
          | BlobCallback d None \<Rightarrow>
              Some (t + d, Rejected ''Failed to convert HEIC using native browser support'')
          | NoCallback \<Rightarrow> None),
        on_error ev (Rejected ''Browser cannot load HEIC image''),
        timer 10000 (Rejected ''HEIC conversion timeout'')]"

definition tryNativeHeicConversion :: "browser \<Rightarrow> File \<Rightarrow> File async" where
  "tryNativeHeicConversion br file =
     await (validateImageFile br file) (\<lambda>isValid.
       if \<not> isValid then throw ''Browser does not support HEIC format natively''
       else (\<lambda>w. load_promise
                    (tryNativeHeicConversion_promise file (imageLoad br (loads w) file)
                       (canvasToBlob br (loads w))) w))"

section \<open>imageProcessing: convertImageToPng\<close>

definition HEIC_NOT_SUPPORTED :: string where
  "HEIC_NOT_SUPPORTED =
     ''HEIC_NOT_SUPPORTED: Your HEIC image cannot be processed in this browser. Please:''
     @ [CHR 0x0A, CHR 0x0A] @ ''1. Open the image on your iPhone/Mac''
     @ [CHR 0x0A] @ ''2. Export or save it as JPEG or PNG''
     @ [CHR 0x0A] @ ''3. Upload the converted file''
     @ [CHR 0x0A, CHR 0x0A]
     @ ''Alternatively, try using Safari browser which has better HEIC support.''"

fun convertImageToPng_promise ::
  "File \<Rightarrow> image_event \<Rightarrow> (nat \<times> nat \<Rightarrow> canvas_event) \<Rightarrow> File settlement option" where
  "convertImageToPng_promise file (SetupThrows msg) cv =
     Some (0, Rejected (''Image conversion failed: '' @ msg))"
| "convertImageToPng_promise file ev cv =
     first_settled
       [on_load ev (\<lambda>t w h.
          case cv (setCanvasSize (Num (rat_of_nat w)) (Num (rat_of_nat h))) of
            DrawThrows msg \<Rightarrow> Some (t, Rejected (''Image processing failed: '' @ msg))
          | NoContext \<Rightarrow> Some (t, Rejected ''Unable to get canvas rendering context'')
          | BlobCallback d (Some blob) \<Rightarrow>
              Some (t + d, Resolved (newFile blob (replaceExtension (file_name file)) ''image/png''))
          | BlobCallback d None \<Rightarrow>
              Some (t + d, Rejected ''Failed to convert image to PNG format'')
          | NoCallback \<Rightarrow> None),
        on_error ev
          (Rejected ''Unable to load image - file may be corrupted or in an unsupported format''),
        timer 10000 (Rejected ''Image loading timeout - file may be too large or corrupted'')]"

definition convertImageToPng :: "browser \<Rightarrow> File \<Rightarrow> File async" where
  "convertImageToPng br file =
     (if isHeicFile file then
        try_catch (convertHeicToPng br file) (\<lambda>error.
          try_catch (tryNativeHeicConversion br file) (\<lambda>nativeError.
            throw HEIC_NOT_SUPPORTED))
      else
        await (validateImageFile br file) (\<lambda>isValid.
          if \<not> isValid then throw ''Invalid or corrupted image file''
          else (\<lambda>w. load_promise
                       (convertImageToPng_promise file (imageLoad br (loads w) file)
                          (canvasToBlob br (loads w))) w)))"

section \<open>imageProcessing: optimizeImageSize\<close>

text \<open>
  The new size is computed in double arithmetic and then truncated by the canvas, so
  rounding can change a pixel: \<open>fl\<close> rounds the exact result of each operation.
\<close>

definition js_quot :: "(rat \<Rightarrow> rat) \<Rightarrow> nat \<Rightarrow> nat \<Rightarrow> jsnum" where
  "js_quot fl a b = (case js_div a b of Num q \<Rightarrow> Num (fl q) | x \<Rightarrow> x)"

text \<open>\<open>Math.min\<close> of two numbers.\<close>

fun js_min :: "jsnum \<Rightarrow> jsnum \<Rightarrow> jsnum" where
  "js_min NaN y = NaN"
| "js_min x NaN = NaN"
| "js_min NegInf y = NegInf"
| "js_min x NegInf = NegInf"
| "js_min PosInf y = y"
| "js_min x PosInf = x"
| "js_min (Num p) (Num q) = Num (min p q)"

text \<open>The product of a non-negative integer and a number.\<close>

fun js_times :: "(rat \<Rightarrow> rat) \<Rightarrow> nat \<Rightarrow> jsnum \<Rightarrow> jsnum" where
  "js_times fl n (Num q) = Num (fl (rat_of_nat n * q))"
| "js_times fl n PosInf = (if n = 0 then NaN else PosInf)"
| "js_times fl n NegInf = (if n = 0 then NaN else NegInf)"
| "js_times fl n NaN = NaN"

text \<open>
  \<open>canvas.width\<close> and \<open>canvas.height\<close> after the assignments of \<open>onload\<close>, for a loaded
  image of width \<open>w\<close> and height \<open>h\<close>.
\<close>

definition canvasSize :: "(rat \<Rightarrow> rat) \<Rightarrow> nat \<Rightarrow> nat \<Rightarrow> nat \<Rightarrow> nat \<Rightarrow> nat \<times> nat" where
  "canvasSize fl w h maxWidth maxHeight =
     (let (width, height) =
            (if w > maxWidth \<or> h > maxHeight then
               (let ratio = js_min (js_quot fl maxWidth w) (js_quot fl maxHeight h)
                in (js_times fl w ratio, js_times fl h ratio))
             else (Num (rat_of_nat w), Num (rat_of_nat h)))
      in setCanvasSize width height)"

fun optimizeImageSize_promise ::
  "File \<Rightarrow> nat \<Rightarrow> nat \<Rightarrow> (rat \<Rightarrow> rat) \<Rightarrow> image_event \<Rightarrow> (nat \<times> nat \<Rightarrow> canvas_event)
   \<Rightarrow> File settlement option" where
  "optimizeImageSize_promise file maxWidth maxHeight fl (SetupThrows msg) cv =
     Some (0, Rejected (''Image optimization failed: '' @ msg))"
| "optimizeImageSize_promise file maxWidth maxHeight fl ev cv =
     first_settled
       [on_load ev (\<lambda>t w h.
          case cv (canvasSize fl w h maxWidth maxHeight) of
            DrawThrows msg \<Rightarrow> Some (t, Rejected (''Image optimization failed: '' @ msg))
          | NoContext \<Rightarrow> Some (t, Rejected ''Unable to get canvas context for optimization'')
          | BlobCallback d (Some blob) \<Rightarrow>
              Some (t + d, Resolved (newFile blob (replaceExtension (file_name file)) ''image/png''))
          | BlobCallback d None \<Rightarrow> Some (t + d, Rejected ''Failed to optimize image'')
          | NoCallback \<Rightarrow> None),
        on_error ev (Rejected ''Unable to load image for optimization''),
        timer 10000 (Rejected ''Image optimization timeout'')]"

function optimizeImageSize :: "browser \<Rightarrow> File \<Rightarrow> nat \<Rightarrow> nat \<Rightarrow> File async" where
  "optimizeImageSize br file maxWidth maxHeight w =
     (if isHeicFile file then
        (case convertImageToPng br file w of
           None \<Rightarrow> None
         | Some (Rejected e, w1) \<Rightarrow> Some (Rejected e, w1)
         | Some (Resolved convertedFile, w1) \<Rightarrow>
             optimizeImageSize br convertedFile maxWidth maxHeight w1)
      else
        await (validateImageFile br file) (\<lambda>isValid.
          if \<not> isValid then throw ''Invalid image file for optimization''
          else (\<lambda>w. load_promise
                       (optimizeImageSize_promise file maxWidth maxHeight (toDouble br)
                          (imageLoad br (loads w) file) (canvasToBlob br (loads w))) w)) w)"
  by pat_completeness auto

section \<open>imageProcessing: getImageMetadata and analyzeImageContent\<close>

fun getImageMetadata_promise :: "File \<Rightarrow> image_event \<Rightarrow> ImageMetadata settlement option" where
  "getImageMetadata_promise file (SetupThrows msg) =
     Some (0, Rejected (''Metadata extraction failed: '' @ msg))"
| "getImageMetadata_promise file ev =
     first_settled
       [on_load ev (\<lambda>t w h.
          Some (t, Resolved
            \<lparr>width = w, height = h, aspectRatio = js_div w h, format = file_type file,
             size_bytes = file_size file,
             hasTransparency =
               Some (file_type file = ''image/png'' \<or> file_type file = ''image/webp'')\<rparr>)),
        on_error ev (Rejected ''Unable to extract image metadata''),
        timer 5000 (Rejected ''Metadata extraction timeout'')]"

function getImageMetadata :: "browser \<Rightarrow> File \<Rightarrow> ImageMetadata async" where
  "getImageMetadata br file w =
     (if isHeicFile file then
        (case convertImageToPng br file w of
           None \<Rightarrow> None
         | Some (Rejected e, w1) \<Rightarrow> Some (Rejected e, w1)
         | Some (Resolved convertedFile, w1) \<Rightarrow> getImageMetadata br convertedFile w1)
      else
        await (validateImageFile br file) (\<lambda>isValid.
          if \<not> isValid then throw ''Invalid image file for metadata extraction''
          else (\<lambda>w. load_promise
                       (getImageMetadata_promise file (imageLoad br (loads w) file)) w)) w)"
  by pat_completeness auto

definition analyzeImageContent :: "browser \<Rightarrow> File \<Rightarrow> PersonAnalysis async" where
  "analyzeImageContent br file =
     await (getImageMetadata br file) (\<lambda>md w.
       let filename = toLowerCase (file_name file);
           gender =
             (if str_includes filename ''female'' \<or> str_includes filename ''woman''
                 \<or> str_includes filename ''girl'' then GenderFemale
              else if str_includes filename ''male'' \<or> str_includes filename ''man''
                 \<or> str_includes filename ''boy'' then GenderMale
              else GenderUnknown);
           ageGroup =
             (if str_includes filename ''young'' \<or> str_includes filename ''teen''
                 \<or> str_includes filename ''junior'' then AgeYoung
              else if str_includes filename ''senior'' \<or> str_includes filename ''elder''
                 \<or> str_includes filename ''mature'' then AgeMature
              else AgeAdult);
           attire =
             (if str_includes filename ''business'' \<or> str_includes filename ''professional''
                 \<or> str_includes filename ''corporate'' then AttireBusiness
              else if str_includes filename ''formal'' \<or> str_includes filename ''suit''
                 \<or> str_includes filename ''dress'' then AttireFormal
              else if str_includes filename ''casual'' \<or> str_includes filename ''tshirt''
                 \<or> str_includes filename ''jeans'' then AttireCasual
              else AttireUnknown);
           setting = SettingUnknown;
           quality =
             (if width md \<ge> 1024 \<and> height md \<ge> 1024 then QualityHigh
              else if width md \<ge> 512 \<and> height md \<ge> 512 then QualityMedium
              else QualityLow)
       in Some (Resolved \<lparr>gender = gender, ageGroup = ageGroup, attire = attire,
                          setting = setting, quality = quality\<rparr>, w))"

text \<open>
  The filename heuristics in the words of the specification: the lowercased name
  contains one of the given words.
\<close>

definition mentions :: "string \<Rightarrow> string list \<Rightarrow> bool" where
  "mentions filename ws \<longleftrightarrow> (\<exists>w \<in> set ws. sublist w filename)"

text \<open>
  What is asked of the rounding: on the magnitudes that pixel sizes produce, the rounded
  value is within the relative error \<open>2^-53\<close> of the exact one, as rounding to the nearest
  double is. Exact arithmetic, \<open>\<lambda>x. x\<close>, is one such rounding.
\<close>

definition rounds_like_double :: "(rat \<Rightarrow> rat) \<Rightarrow> bool" where
  "rounds_like_double fl \<longleftrightarrow>
     (\<forall>x. 1 / 2 ^ 64 \<le> x \<and> x \<le> 2 ^ 64 \<longrightarrow> \<bar>fl x - x\<bar> \<le> x / 2 ^ 53)"

text \<open>
  The schedule of the specification: the prompts in batches of two, the last possibly of
  one; each batch issued at once; a failed batch retried prompt by prompt; 500 ms
  between consecutive batches. \<open>schedule\<close> takes the batches, each with the flag of its
  failure.
\<close>

fun batches_of_two :: "'a list \<Rightarrow> 'a list list" where
  "batches_of_two [] = []"
| "batches_of_two [x] = [[x]]"
| "batches_of_two (x # y # zs) = [x, y] # batches_of_two zs"

fun schedule :: "string \<Rightarrow> (bool \<times> string list) list \<Rightarrow> effect list" where
  "schedule imageUrl [] = []"
| "schedule imageUrl ((failed, batch) # rest) =
     [BatchCall (map (makeRequest imageUrl) batch)]
     @ (if failed then map (\<lambda>p. SingleCall (makeRequest imageUrl p)) batch else [])
     @ (if rest = [] then [] else [Sleep 500])
     @ schedule imageUrl rest"

section \<open>Facts about the string operations\<close>

lemma startsWith_prefix: "startsWith s p \<longleftrightarrow> prefix p s"
  by (induction s p rule: startsWith.induct) auto

lemma endsWith_suffix: "endsWith s e \<longleftrightarrow> suffix e s"
proof
  assume "endsWith s e"
  then have "s = take (length s - length e) s @ e"
    by (metis append_take_drop_id endsWith_def)
  then show "suffix e s"
    by (metis suffixI)
next
  assume "suffix e s"
  then obtain p where "s = p @ e"
    by (auto simp: suffix_def)
  then show "endsWith s e"
    by (simp add: endsWith_def)
qed

lemma includes_sublist: "str_includes s p \<longleftrightarrow> sublist p s"
  by (induction s) (auto simp: startsWith_prefix sublist_Cons_right)

section \<open>validateFile\<close>

lemma isValidType_acceptedType:
  "file_type f \<in> set validTypes \<or> matchesImageExtension (toLowerCase (file_name f))
   \<longleftrightarrow> acceptedType f"
  by (simp add: acceptedType_def validTypes_def matchesImageExtension_def endsWith_suffix)

text \<open>
  C2. \<open>validateFile\<close> returns no error exactly for the files of an accepted type (by MIME
  type or by the extension of the lowercased name) whose size lies between 1024 bytes and
  20 MiB inclusive. Otherwise it returns the message of the first failed check: invalid
  type, then over 20MB, then under 1KB.
\<close>

theorem validateFile_accepts_iff:
  "(validateFile f = None \<longleftrightarrow>
      acceptedType f \<and> file_size f \<le> 20 * 1024 * 1024 \<and> 1024 \<le> file_size f)
   \<and> (\<not> acceptedType f \<longrightarrow>
        validateFile f = Some ''Please select a valid image file (JPG, PNG, WebP, or HEIC)'')
   \<and> (acceptedType f \<and> file_size f > 20 * 1024 * 1024 \<longrightarrow>
        validateFile f = Some ''File size must be less than 20MB'')
   \<and> (acceptedType f \<and> file_size f < 1024 \<longrightarrow>
        validateFile f = Some ''File appears to be too small or corrupted'')"
  using isValidType_acceptedType [of f]
  by (auto simp: validateFile_def Let_def)

theorem validateFile_accepts_iff_witness:
  "acceptedType \<lparr>file_name = ''me.JPG'', file_type = '''', file_size = 2048\<rparr>
   \<and> validateFile \<lparr>file_name = ''me.JPG'', file_type = '''', file_size = 2048\<rparr> = None
   \<and> \<not> acceptedType \<lparr>file_name = ''notes.txt'', file_type = ''text/plain'', file_size = 2048\<rparr>
   \<and> validateFile \<lparr>file_name = ''notes.txt'', file_type = ''text/plain'', file_size = 2048\<rparr>
       = Some ''Please select a valid image file (JPG, PNG, WebP, or HEIC)''
   \<and> acceptedType \<lparr>file_name = ''a.png'', file_type = ''image/png'', file_size = 20971521\<rparr>
   \<and> validateFile \<lparr>file_name = ''a.png'', file_type = ''image/png'', file_size = 20971521\<rparr>
       = Some ''File size must be less than 20MB''
   \<and> validateFile \<lparr>file_name = ''a.png'', file_type = ''image/png'', file_size = 1023\<rparr>
       = Some ''File appears to be too small or corrupted''"
proof -
  let ?ok = "\<lparr>file_name = ''me.JPG'', file_type = '''', file_size = 2048\<rparr>"
  let ?txt = "\<lparr>file_name = ''notes.txt'', file_type = ''text/plain'', file_size = 2048\<rparr>"
  let ?big = "\<lparr>file_name = ''a.png'', file_type = ''image/png'', file_size = 20971521\<rparr>"
  let ?tiny = "\<lparr>file_name = ''a.png'', file_type = ''image/png'', file_size = 1023\<rparr>"
  have a1: "acceptedType ?ok"
    by (simp add: acceptedType_def toLowerCase_def lower_char_def suffix_to_prefix)
  have a2: "\<not> acceptedType ?txt"
    by (simp add: acceptedType_def toLowerCase_def lower_char_def suffix_to_prefix)
  have a3: "acceptedType ?big" "acceptedType ?tiny"
    by (simp_all add: acceptedType_def)
  have r1: "validateFile ?ok = None"
    using validateFile_accepts_iff [of ?ok] a1 by simp
  have r2: "validateFile ?txt = Some ''Please select a valid image file (JPG, PNG, WebP, or HEIC)''"
    using validateFile_accepts_iff [of ?txt] a2 by blast
  have r3: "validateFile ?big = Some ''File size must be less than 20MB''"
    using validateFile_accepts_iff [of ?big] a3(1) by simp
  have r4: "validateFile ?tiny = Some ''File appears to be too small or corrupted''"
    using validateFile_accepts_iff [of ?tiny] a3(2) by simp
  show ?thesis
    using a1 a2 a3 r1 r2 r3 r4 by blast
qed

section \<open>generateHeadshotPrompts and generateBatchPrompts\<close>

lemma length_styleVariations: "length styleVariations = 6"
  by (simp add: styleVariations_def)

lemma length_slice_from_0:
  "length (slice xs 0 e)
   = (if e < 0 then nat (max (int (length xs) + e) 0) else min (nat e) (length xs))"
  by (simp add: slice_def slice_index_def Let_def)

lemma length_generateHeadshotPrompts:
  "length (generateHeadshotPrompts a m c)
   = (if c < 0 then nat (max (6 + c) 0) else nat (min c 6))"
  by (auto simp add: generateHeadshotPrompts_def Let_def length_slice_from_0
      length_styleVariations)

lemma length_suggestedStyles:
  "length (suggestedStyles (metadata (generateBatchPrompts a m b)))
   = (if b < 0 then nat (max (4 + b) 0) else nat (min b 4))"
  by (auto simp add: generateBatchPrompts_def Let_def length_slice_from_0)

text \<open>
  C9, as amended. The prompts depend on the count alone: two calls with the same count
  return the same list whatever the analysis and the metadata are, and so do the
  suggested styles of \<open>generateBatchPrompts\<close>. For a count that is not negative there
  are \<open>min(count, 6)\<close> prompts and \<open>min(batchSize, 4)\<close> suggested styles, so a batch
  size from 5 to 8 gives more prompts than named styles.
\<close>

theorem generateHeadshotPrompts_depends_on_count_only:
  "generateHeadshotPrompts a m c = generateHeadshotPrompts a' m' c
   \<and> prompts (generateBatchPrompts a m c) = prompts (generateBatchPrompts a' m' c)
   \<and> suggestedStyles (metadata (generateBatchPrompts a m c))
      = suggestedStyles (metadata (generateBatchPrompts a' m' c))
   \<and> (0 \<le> c \<longrightarrow> int (length (generateHeadshotPrompts a m c)) = min c 6)
   \<and> (0 \<le> c \<longrightarrow>
        int (length (suggestedStyles (metadata (generateBatchPrompts a m c)))) = min c 4)
   \<and> (5 \<le> c \<and> c \<le> 8 \<longrightarrow>
        length (suggestedStyles (metadata (generateBatchPrompts a m c)))
        < length (prompts (generateBatchPrompts a m c)))"
proof -
  have indep: "generateHeadshotPrompts a m c = generateHeadshotPrompts a' m' c"
    by (simp add: generateHeadshotPrompts_def)
  have p: "prompts (generateBatchPrompts a m c) = generateHeadshotPrompts a m c" for a m
    by (simp add: generateBatchPrompts_def Let_def)
  have s: "suggestedStyles (metadata (generateBatchPrompts a m c))
      = suggestedStyles (metadata (generateBatchPrompts a' m' c))"
    by (simp add: generateBatchPrompts_def Let_def)
  show ?thesis
    using indep s by (auto simp: p length_generateHeadshotPrompts length_suggestedStyles)
qed

theorem generateHeadshotPrompts_depends_on_count_only_witness:
  "generateHeadshotPrompts
     \<lparr>gender = GenderUnknown, ageGroup = AgeAdult, attire = AttireUnknown,
      setting = SettingUnknown, quality = QualityLow\<rparr>
     \<lparr>width = 100, height = 100, aspectRatio = Num 1, format = ''image/png'',
      size_bytes = 2048, hasTransparency = Some True\<rparr> 3
   = generateHeadshotPrompts
     \<lparr>gender = GenderFemale, ageGroup = AgeYoung, attire = AttireBusiness,
      setting = SettingUnknown, quality = QualityHigh\<rparr>
     \<lparr>width = 2000, height = 1500, aspectRatio = Num (4 / 3), format = ''image/png'',
      size_bytes = 1048576, hasTransparency = Some True\<rparr> 3
   \<and> int (length (generateHeadshotPrompts
     \<lparr>gender = GenderUnknown, ageGroup = AgeAdult, attire = AttireUnknown,
      setting = SettingUnknown, quality = QualityLow\<rparr>
     \<lparr>width = 100, height = 100, aspectRatio = Num 1, format = ''image/png'',
      size_bytes = 2048, hasTransparency = Some True\<rparr> 3)) = 3
   \<and> length (suggestedStyles (metadata (generateBatchPrompts
     \<lparr>gender = GenderUnknown, ageGroup = AgeAdult, attire = AttireUnknown,
      setting = SettingUnknown, quality = QualityLow\<rparr>
     \<lparr>width = 100, height = 100, aspectRatio = Num 1, format = ''image/png'',
      size_bytes = 2048, hasTransparency = Some True\<rparr> 6)))
     < length (prompts (generateBatchPrompts
     \<lparr>gender = GenderUnknown, ageGroup = AgeAdult, attire = AttireUnknown,
      setting = SettingUnknown, quality = QualityLow\<rparr>
     \<lparr>width = 100, height = 100, aspectRatio = Num 1, format = ''image/png'',
      size_bytes = 2048, hasTransparency = Some True\<rparr> 6))"
proof -
  let ?a = "\<lparr>gender = GenderUnknown, ageGroup = AgeAdult, attire = AttireUnknown,
      setting = SettingUnknown, quality = QualityLow\<rparr>"
  let ?m = "\<lparr>width = 100, height = 100, aspectRatio = Num 1, format = ''image/png'',
      size_bytes = 2048, hasTransparency = Some True\<rparr>"
  let ?a' = "\<lparr>gender = GenderFemale, ageGroup = AgeYoung, attire = AttireBusiness,
      setting = SettingUnknown, quality = QualityHigh\<rparr>"
  let ?m' = "\<lparr>width = 2000, height = 1500, aspectRatio = Num (4 / 3), format = ''image/png'',
      size_bytes = 1048576, hasTransparency = Some True\<rparr>"
  note at3 = generateHeadshotPrompts_depends_on_count_only [of ?a ?m 3 ?a' ?m']
  note at6 = generateHeadshotPrompts_depends_on_count_only [of ?a ?m 6 ?a' ?m']
  have "generateHeadshotPrompts ?a ?m 3 = generateHeadshotPrompts ?a' ?m' 3"
    using at3 by blast
  moreover have "(0::int) \<le> 3 \<longrightarrow> int (length (generateHeadshotPrompts ?a ?m 3)) = min 3 6"
    using at3 by blast
  then have "int (length (generateHeadshotPrompts ?a ?m 3)) = 3"
    by simp
  moreover have "(5::int) \<le> 6 \<and> (6::int) \<le> 8 \<longrightarrow>
        length (suggestedStyles (metadata (generateBatchPrompts ?a ?m 6)))
        < length (prompts (generateBatchPrompts ?a ?m 6))"
    using at6 by blast
  then have "length (suggestedStyles (metadata (generateBatchPrompts ?a ?m 6)))
        < length (prompts (generateBatchPrompts ?a ?m 6))"
    by simp
  ultimately show ?thesis
    by blast
qed

theorem generateHeadshotPrompts_negative_count:
  "length (generateHeadshotPrompts
     \<lparr>gender = GenderUnknown, ageGroup = AgeAdult, attire = AttireUnknown,
      setting = SettingUnknown, quality = QualityLow\<rparr>
     \<lparr>width = 100, height = 100, aspectRatio = Num 1, format = ''image/png'',
      size_bytes = 2048, hasTransparency = Some True\<rparr> (- 1)) = 5
   \<and> min (- 1) (6::int) = - 1
   \<and> length (suggestedStyles (metadata (generateBatchPrompts
     \<lparr>gender = GenderUnknown, ageGroup = AgeAdult, attire = AttireUnknown,
      setting = SettingUnknown, quality = QualityLow\<rparr>
     \<lparr>width = 100, height = 100, aspectRatio = Num 1, format = ''image/png'',
      size_bytes = 2048, hasTransparency = Some True\<rparr> (- 1)))) = 3
   \<and> min (- 1) (4::int) = - 1"
  by (simp add: length_generateHeadshotPrompts length_suggestedStyles)

section \<open>calculateQualityScore and getImageRecommendations\<close>

text \<open>
  C10. The quality score lies between 20 and 100: it is the sum, capped at 100, of five
  terms that are at least 10 (resolution), 5 (aspect ratio), 5 (quality), 0 (file size)
  and 0 (attire), for any analysis and any metadata, whatever the aspect ratio is
  (NaN and the infinities included). A score of at least 70 gives no recommendation.
\<close>

theorem calculateQualityScore_bounds:
  "20 \<le> calculateQualityScore a m \<and> calculateQualityScore a m \<le> 100
   \<and> 10 \<le> resolutionScore m \<and> 5 \<le> aspectRatioScore m \<and> 5 \<le> qualityAssessmentScore a
   \<and> 0 \<le> fileSizeScore m \<and> 0 \<le> professionalContextBonus a
   \<and> calculateQualityScore a m
       = min 100 (resolutionScore m + aspectRatioScore m + qualityAssessmentScore a
                  + fileSizeScore m + professionalContextBonus a)
   \<and> (70 \<le> calculateQualityScore a m \<longrightarrow> getImageRecommendations a m = [])"
proof -
  have r: "10 \<le> resolutionScore m"
    by (simp add: resolutionScore_def)
  have ar: "5 \<le> aspectRatioScore m"
    by (simp add: aspectRatioScore_def Let_def)
  have q: "5 \<le> qualityAssessmentScore a"
    by (simp add: qualityAssessmentScore_def)
  have total: "calculateQualityScore a m
       = min 100 (resolutionScore m + aspectRatioScore m + qualityAssessmentScore a
                  + fileSizeScore m + professionalContextBonus a)"
    by (simp add: calculateQualityScore_def Let_def)
  have recs: "70 \<le> calculateQualityScore a m \<longrightarrow> getImageRecommendations a m = []"
    by (simp add: getImageRecommendations_def)
  show ?thesis
    using r ar q total recs by auto
qed

theorem calculateQualityScore_bounds_witness:
  "70 \<le> calculateQualityScore
     \<lparr>gender = GenderFemale, ageGroup = AgeYoung, attire = AttireBusiness,
      setting = SettingUnknown, quality = QualityHigh\<rparr>
     \<lparr>width = 2000, height = 1500, aspectRatio = Num (4 / 3), format = ''image/png'',
      size_bytes = 1048576, hasTransparency = Some True\<rparr>
   \<and> getImageRecommendations
     \<lparr>gender = GenderFemale, ageGroup = AgeYoung, attire = AttireBusiness,
      setting = SettingUnknown, quality = QualityHigh\<rparr>
     \<lparr>width = 2000, height = 1500, aspectRatio = Num (4 / 3), format = ''image/png'',
      size_bytes = 1048576, hasTransparency = Some True\<rparr> = []"
proof -
  let ?a = "\<lparr>gender = GenderFemale, ageGroup = AgeYoung, attire = AttireBusiness,
      setting = SettingUnknown, quality = QualityHigh\<rparr>"
  let ?m = "\<lparr>width = 2000, height = 1500, aspectRatio = Num (4 / 3), format = ''image/png'',
      size_bytes = 1048576, hasTransparency = Some True\<rparr>"
  have score: "calculateQualityScore ?a ?m = 90"
    by (simp add: calculateQualityScore_def resolutionScore_def aspectRatioScore_def
        qualityAssessmentScore_def fileSizeScore_def professionalContextBonus_def Let_def)
  then have "70 \<le> calculateQualityScore ?a ?m"
    by simp
  with calculateQualityScore_bounds [of ?a ?m] show ?thesis
    by blast
qed

section \<open>The requests of the generator\<close>









lemma slice_from_0: "0 \<le> e \<Longrightarrow> slice xs 0 e = take (nat e) xs"
  by (simp add: slice_def slice_index_def Let_def min_def)

lemma generateHeadshotPrompts_take:
  "0 \<le> c \<Longrightarrow> generateHeadshotPrompts a m c = map stylePrompt (take (nat c) styleVariations)"
  by (auto simp: generateHeadshotPrompts_def slice_from_0 Let_def
      length_styleVariations min_def)

lemma suggestedStyles_take:
  "0 \<le> b \<Longrightarrow> suggestedStyles (metadata (generateBatchPrompts a m b))
     = take (nat b) [''Corporate Executive'', ''Creative Professional'',
                          ''LinkedIn Profile'', ''Executive Portrait'']"
  by (simp add: generateBatchPrompts_def slice_from_0 Let_def)

lemma prompts_generateBatchPrompts:
  "prompts (generateBatchPrompts a m b) = generateHeadshotPrompts a m b"
  by (simp add: generateBatchPrompts_def Let_def)



section \<open>The retry of a failed batch\<close>

lemma styleVariations_first_three: "\<exists>v0 v1 v2 vs. styleVariations = v0 # v1 # v2 # vs"
  by (simp add: styleVariations_def)

lemma string_of_nat_digit: "n < 10 \<Longrightarrow> string_of_nat n = [digit_char n]"
  by (simp add: string_of_nat.simps)

lemma batches_of_two_step:
  "xs \<noteq> [] \<Longrightarrow> batches_of_two xs = take 2 xs # batches_of_two (drop 2 xs)"
  by (induction xs rule: batches_of_two.induct) simp_all

lemma length_batches_of_two: "length (batches_of_two xs) = (length xs + 1) div 2"
  by (induction xs rule: batches_of_two.induct) simp_all

lemma batches_of_two_Nil: "batches_of_two xs = [] \<longleftrightarrow> xs = []"
  by (induction xs rule: batches_of_two.induct) simp_all

lemma slice_index_nat: "slice_index len (int k) = min k len"
  by (simp add: slice_index_def)

lemma slice_nat:
  "slice xs (int i) (int j) = take (min j (length xs) - min i (length xs)) (drop (min i (length xs)) xs)"
  by (simp only: slice_def slice_index_nat Let_def)

lemma slice_batch:
  assumes "i < length ps"
  shows "slice ps (int i) (int (i + batchSize)) = take 2 (drop i ps)"
proof -
  have "slice ps (int i) (int (i + batchSize))
      = take (min (i + batchSize) (length ps) - min i (length ps)) (drop (min i (length ps)) ps)"
    by (rule slice_nat)
  also have "\<dots> = take 2 (drop i ps)"
    using assms by (auto simp: batchSize_def min_def)
  finally show ?thesis .
qed

lemma retryIndividually_completed:
  "retryIndividually svc u styles i es st = (None, st') \<Longrightarrow>
   effects st' = effects st @ map (\<lambda>(bi, p). SingleCall (makeRequest u p)) es
   \<and> map gi_prompt (images st') = map gi_prompt (images st) @ map snd es"
proof (induction es arbitrary: st)
  case Nil
  then show ?case by simp
next
  case (Cons e es)
  obtain bi p where e: "e = (bi, p)" by (cases e)
  show ?case
  proof (cases "requestHeadshot svc (calls st) u styles p (i + bi)")
    case (Inl individualError)
    with Cons.prems e show ?thesis
      by (simp add: Let_def)
  next
    case (Inr img)
    let ?st2 = "st\<lparr>calls := calls st + 1,
                   effects := effects st @ [SingleCall (makeRequest u p)],
                   images := images st @ [img]\<rparr>"
    have img: "gi_prompt img = p"
      using Inr by (auto simp: requestHeadshot_def split: api_response.splits list.splits)
    from Cons.prems e Inr have "retryIndividually svc u styles i es ?st2 = (None, st')"
      by (simp add: Let_def)
    from Cons.IH [OF this] e img show ?thesis
      by simp
  qed
qed


lemma requestHeadshot_prompt:
  "requestHeadshot svc k u styles p idx = Inr img \<Longrightarrow> gi_prompt img = p"
  by (auto simp: requestHeadshot_def split: api_response.splits list.splits)

lemma promise_all_prompts:
  "promise_all (map (\<lambda>(bi, p). requestHeadshot svc (k + bi) u styles p (i + bi)) es) = Some imgs
   \<Longrightarrow> map gi_prompt imgs = map snd es"
proof (induction es arbitrary: imgs)
  case Nil
  then show ?case by simp
next
  case (Cons e es)
  obtain bi p where e: "e = (bi, p)" by (cases e)
  from Cons.prems e obtain img rest where
    first: "requestHeadshot svc (k + bi) u styles p (i + bi) = Inr img"
    and rest: "promise_all (map (\<lambda>(bi, p). requestHeadshot svc (k + bi) u styles p (i + bi)) es)
               = Some rest"
    and imgs: "imgs = img # rest"
    by (cases "requestHeadshot svc (k + bi) u styles p (i + bi)") auto
  from Cons.IH [OF rest] requestHeadshot_prompt [OF first] e imgs show ?case
    by simp
qed

lemma map_entries:
  "map (\<lambda>(bi, p). g p) (enumerate n xs) = map g xs"
  by (induction xs arbitrary: n) simp_all

lemma processBatch_completed:
  assumes "processBatch svc u styles i bps st = (None, st1)"
  shows "\<exists>failed. effects st1 =
           effects st @ [BatchCall (map (makeRequest u) bps)]
           @ (if failed then map (\<lambda>p. SingleCall (makeRequest u p)) bps else [])"
    and "map gi_prompt (images st1) = map gi_prompt (images st) @ bps"
proof -
  let ?results = "map (\<lambda>(bi, p). requestHeadshot svc (calls st + bi) u styles p (i + bi))
                      (enumerate 0 bps)"
  let ?st1 = "st\<lparr>calls := calls st + length bps,
                  effects := effects st @ [BatchCall (map (makeRequest u) bps)]\<rparr>"
  have both: "(\<exists>failed. effects st1 =
           effects st @ [BatchCall (map (makeRequest u) bps)]
           @ (if failed then map (\<lambda>p. SingleCall (makeRequest u p)) bps else []))
      \<and> map gi_prompt (images st1) = map gi_prompt (images st) @ bps"
  proof (cases "promise_all ?results")
    case (Some imgs)
    with assms have st1: "st1 = ?st1\<lparr>images := images ?st1 @ imgs\<rparr>"
      by (simp add: processBatch_def Let_def)
    have "map gi_prompt imgs = bps"
      using promise_all_prompts [OF Some] by simp
    with st1 have "effects st1 = effects st @ [BatchCall (map (makeRequest u) bps)]
           @ (if False then map (\<lambda>p. SingleCall (makeRequest u p)) bps else [])"
      and "map gi_prompt (images st1) = map gi_prompt (images st) @ bps"
      by simp_all
    then show ?thesis
      by blast
  next
    case None
    with assms have "retryIndividually svc u styles i (enumerate 0 bps) ?st1 = (None, st1)"
      by (simp add: processBatch_def Let_def)
    from retryIndividually_completed [OF this]
    have "effects st1 = effects st @ [BatchCall (map (makeRequest u) bps)]
           @ (if True then map (\<lambda>p. SingleCall (makeRequest u p)) bps else [])"
      and "map gi_prompt (images st1) = map gi_prompt (images st) @ bps"
      by (simp_all add: map_entries)
    then show ?thesis
      by blast
  qed
  from both show "\<exists>failed. effects st1 =
           effects st @ [BatchCall (map (makeRequest u) bps)]
           @ (if failed then map (\<lambda>p. SingleCall (makeRequest u p)) bps else [])"
    and "map gi_prompt (images st1) = map gi_prompt (images st) @ bps"
    by blast+
qed

lemma processBatches_completed:
  "processBatches svc u ps styles i st = (None, st') \<Longrightarrow>
   (\<exists>fs. length fs = length (batches_of_two (drop i ps))
      \<and> effects st' = effects st @ schedule u (zip fs (batches_of_two (drop i ps))))
   \<and> map gi_prompt (images st') = map gi_prompt (images st) @ drop i ps"
proof (induction svc u ps styles i st rule: processBatches.induct)
  case (1 svc u ps styles i st)
  show ?case
  proof (cases "i < length ps")
    case False
    with "1.prems" show ?thesis
      by (simp add: processBatches.simps)
  next
    case True
    let ?b = "take 2 (drop i ps)"
    obtain e1 st1 where pb:
      "processBatch svc u styles i (slice ps (int i) (int (i + batchSize))) st = (e1, st1)"
      by fastforce
    have e1: "e1 = None"
      using True pb "1.prems" by (cases e1) (simp_all add: processBatches.simps [of svc u ps styles i])
    let ?st2 = "if i + batchSize < length ps
                then st1\<lparr>effects := effects st1 @ [Sleep 500]\<rparr> else st1"
    have run: "processBatches svc u ps styles (i + batchSize) ?st2 = (None, st')"
      using True pb e1 "1.prems" by (simp add: processBatches.simps [of svc u ps styles i])
    note ih = "1.IH" [OF True pb [symmetric] _ run]
    from ih e1 obtain fs' where fs': "length fs' = length (batches_of_two (drop (i + batchSize) ps))"
      and tr': "effects st' = effects ?st2
                  @ schedule u (zip fs' (batches_of_two (drop (i + batchSize) ps)))"
      and im': "map gi_prompt (images st') = map gi_prompt (images ?st2) @ drop (i + batchSize) ps"
      by auto
    from pb [unfolded slice_batch [OF True]] e1
    have pb': "processBatch svc u styles i ?b st = (None, st1)"
      by simp
    from processBatch_completed [OF pb'] obtain failed where
      tr1: "effects st1 = effects st @ [BatchCall (map (makeRequest u) ?b)]
           @ (if failed then map (\<lambda>p. SingleCall (makeRequest u p)) ?b else [])"
      and im1: "map gi_prompt (images st1) = map gi_prompt (images st) @ ?b"
      by blast
    have step: "batches_of_two (drop i ps) = ?b # batches_of_two (drop (i + batchSize) ps)"
      using True batches_of_two_step [of "drop i ps"] by (simp add: batchSize_def add.commute)
    have last: "zip fs' (batches_of_two (drop (i + batchSize) ps)) = []
        \<longleftrightarrow> \<not> i + batchSize < length ps"
      using fs' by (cases fs') (auto simp: batches_of_two_Nil)
    have "length (failed # fs') = length (batches_of_two (drop i ps))"
      using fs' step by simp
    moreover have "effects st' = effects st
        @ schedule u (zip (failed # fs') (batches_of_two (drop i ps)))"
      using tr' tr1 last by (simp add: step)
    moreover have "map gi_prompt (images st') = map gi_prompt (images st) @ drop i ps"
    proof -
      have split: "?b @ drop (i + batchSize) ps = drop i ps"
        by (metis add.commute append_take_drop_id batchSize_def drop_drop)
      have "images ?st2 = images st1"
        by simp
      with im' have "map gi_prompt (images st') = map gi_prompt (images st1) @ drop (i + batchSize) ps"
        by (simp only:)
      also have "\<dots> = map gi_prompt (images st) @ (?b @ drop (i + batchSize) ps)"
        by (simp only: im1 append_assoc)
      finally show ?thesis
        by (simp only: split)
    qed
    ultimately show ?thesis
      by blast
  qed
qed


text \<open>
  What the batch loop does when it runs to its end, which is when no retry fails: the
  trace follows the schedule of the specification, with \<open>ceil(n / 2)\<close> batches, and there
  is one image for every prompt, in order. So a run either commits an image for every
  prompt or commits nothing.
\<close>

lemma processBatches_schedule:
  assumes "processBatches svc u ps styles 0 st = (None, st')"
  shows "\<exists>fs. length fs = (length ps + 1) div 2
           \<and> effects st' = effects st @ schedule u (zip fs (batches_of_two ps))"
    and "map gi_prompt (images st') = map gi_prompt (images st) @ ps"
  using processBatches_completed [OF assms] by (simp_all add: length_batches_of_two)

lemma generateHeadshots_all_or_nothing:
  "generatedImages (fst (generateHeadshots svc (Some d) s)) = generatedImages s
   \<or> map gi_prompt (generatedImages (fst (generateHeadshots svc (Some d) s)))
       = map gi_prompt (generatedImages s)
         @ prompts (generateBatchPrompts (pid_analysis d) (pid_metadata d) (int (imageCount s)))"
proof -
  obtain iu ups where h: "httpsUrl svc d = (iu, ups)"
    by fastforce
  show ?thesis
  proof (cases iu)
    case None
    with h show ?thesis
      by (simp add: generateHeadshots_def Let_def)
  next
    case (Some u)
    let ?batch = "generateBatchPrompts (pid_analysis d) (pid_metadata d) (int (imageCount s))"
    let ?st0 = "\<lparr>images = [], calls = 0, effects = [Toast ToastLoading
                 (''Transforming your photo into '' @ string_of_nat (imageCount s)
                  @ '' professional headshots...'')] @ ups\<rparr>"
    obtain err st where run:
      "processBatches svc u (prompts ?batch) (suggestedStyles (metadata ?batch)) 0 ?st0 = (err, st)"
      by fastforce
    show ?thesis
    proof (cases err)
      case (Some e)
      with h \<open>iu = Some u\<close> run show ?thesis
        by (simp add: generateHeadshots_def Let_def)
    next
      case None
      with run have "map gi_prompt (images st) = prompts ?batch"
        using processBatches_schedule(2) [of svc u "prompts ?batch" _ ?st0 st] by simp
      with h \<open>iu = Some u\<close> run None show ?thesis
        by (simp add: generateHeadshots_def Let_def)
    qed
  qed
qed

text \<open>
  C4, on a run that the code cuts short. Three prompts; the first request of the first
  batch is rejected, and so is the retry of the first prompt. The code issues the first
  batch and one retry, then gives up: the second prompt of the batch is not retried, the
  second batch is never issued and no delay is inserted.
\<close>

theorem generateHeadshots_stops_after_failed_retry:
  "length (prompts (generateBatchPrompts
       \<lparr>gender = GenderUnknown, ageGroup = AgeAdult,
        attire = AttireUnknown, setting = SettingUnknown, quality = QualityLow\<rparr>
       \<lparr>width = 100, height = 100, aspectRatio = Num 1,
        format = ''image/png'', size_bytes = 2048, hasTransparency = Some True\<rparr> 3)) = 3
   \<and> snd (generateHeadshots
        \<lparr>modifyImage = (\<lambda>k r. if k = 0 \<or> k = 2 then ApiFailure ''overloaded''
                               else ApiData [''https://cdn.example/out.png'']),
         storageUpload = (\<lambda>f p. None), dateNow = 0\<rparr>
        (Some \<lparr>pid_file = \<lparr>file_name = ''me.png'', file_type = ''image/png'', file_size = 2048\<rparr>,
               pid_url = ''https://cdn.example/me.png'',
               pid_metadata = \<lparr>width = 100, height = 100, aspectRatio = Num 1,
                  format = ''image/png'', size_bytes = 2048, hasTransparency = Some True\<rparr>,
               pid_analysis = \<lparr>gender = GenderUnknown, ageGroup = AgeAdult,
                  attire = AttireUnknown, setting = SettingUnknown, quality = QualityLow\<rparr>\<rparr>)
        \<lparr>generatedImages = [], isGenerating = False, imageCount = 3, currentBatch = 0\<rparr>)
   = [Toast ToastLoading ''Transforming your photo into 3 professional headshots...'',
      BatchCall [makeRequest ''https://cdn.example/me.png'' (stylePrompt (styleVariations ! 0)),
                 makeRequest ''https://cdn.example/me.png'' (stylePrompt (styleVariations ! 1))],
      SingleCall (makeRequest ''https://cdn.example/me.png'' (stylePrompt (styleVariations ! 0))),
      Toast ToastError ''Failed to generate headshots. Please try again.'']"
proof -
  obtain v0 v1 v2 vs where sv: "styleVariations = v0 # v1 # v2 # vs"
    using styleVariations_first_three by blast
  show ?thesis
    by (simp add: generateHeadshots_def httpsUrl_def Let_def prompts_generateBatchPrompts
      generateHeadshotPrompts_take suggestedStyles_take sv processBatches.simps batchSize_def
      slice_def slice_index_def processBatch_def enumerate_eq_zip requestHeadshot_def
      string_of_nat_digit digit_char_def)
qed

theorem generateHeadshots_stops_after_failed_retry_witness:
  "requests_of (snd (generateHeadshots
        \<lparr>modifyImage = (\<lambda>k r. if k = 0 \<or> k = 2 then ApiFailure ''overloaded''
                               else ApiData [''https://cdn.example/out.png'']),
         storageUpload = (\<lambda>f p. None), dateNow = 0\<rparr>
        (Some \<lparr>pid_file = \<lparr>file_name = ''me.png'', file_type = ''image/png'', file_size = 2048\<rparr>,
               pid_url = ''https://cdn.example/me.png'',
               pid_metadata = \<lparr>width = 100, height = 100, aspectRatio = Num 1,
                  format = ''image/png'', size_bytes = 2048, hasTransparency = Some True\<rparr>,
               pid_analysis = \<lparr>gender = GenderUnknown, ageGroup = AgeAdult,
                  attire = AttireUnknown, setting = SettingUnknown, quality = QualityLow\<rparr>\<rparr>)
        \<lparr>generatedImages = [], isGenerating = False, imageCount = 3, currentBatch = 0\<rparr>))
   = [makeRequest ''https://cdn.example/me.png'' (stylePrompt (styleVariations ! 0)),
      makeRequest ''https://cdn.example/me.png'' (stylePrompt (styleVariations ! 1)),
      makeRequest ''https://cdn.example/me.png'' (stylePrompt (styleVariations ! 0))]"
  using generateHeadshots_stops_after_failed_retry by simp

text \<open>
  C5, on a run where it fails. Two prompts; the first request of the batch is rejected,
  the second succeeds; in the retry the first prompt is rejected again, and the retry of
  the second would succeed. The code does not skip the first prompt and go on: it leaves
  the loop, shows the error toast and commits no image.
\<close>

theorem generateHeadshots_failed_retry_discards_run:
  "modifyImage
        \<lparr>modifyImage = (\<lambda>k r. if k = 0 \<or> k = 2 then ApiFailure ''overloaded''
                               else ApiData [''https://cdn.example/out.png'']),
         storageUpload = (\<lambda>f p. None), dateNow = 0\<rparr>
        3 (makeRequest ''https://cdn.example/me.png'' (stylePrompt (styleVariations ! 1)))
   = ApiData [''https://cdn.example/out.png'']
   \<and> generateHeadshots
        \<lparr>modifyImage = (\<lambda>k r. if k = 0 \<or> k = 2 then ApiFailure ''overloaded''
                               else ApiData [''https://cdn.example/out.png'']),
         storageUpload = (\<lambda>f p. None), dateNow = 0\<rparr>
        (Some \<lparr>pid_file = \<lparr>file_name = ''me.png'', file_type = ''image/png'', file_size = 2048\<rparr>,
               pid_url = ''https://cdn.example/me.png'',
               pid_metadata = \<lparr>width = 100, height = 100, aspectRatio = Num 1,
                  format = ''image/png'', size_bytes = 2048, hasTransparency = Some True\<rparr>,
               pid_analysis = \<lparr>gender = GenderUnknown, ageGroup = AgeAdult,
                  attire = AttireUnknown, setting = SettingUnknown, quality = QualityLow\<rparr>\<rparr>)
        \<lparr>generatedImages = [], isGenerating = False, imageCount = 2, currentBatch = 0\<rparr>
   = (\<lparr>generatedImages = [], isGenerating = False, imageCount = 2, currentBatch = 1\<rparr>,
      [Toast ToastLoading ''Transforming your photo into 2 professional headshots...'',
       BatchCall [makeRequest ''https://cdn.example/me.png'' (stylePrompt (styleVariations ! 0)),
                  makeRequest ''https://cdn.example/me.png'' (stylePrompt (styleVariations ! 1))],
       SingleCall (makeRequest ''https://cdn.example/me.png'' (stylePrompt (styleVariations ! 0))),
       Toast ToastError ''Failed to generate headshots. Please try again.''])"
proof -
  obtain v0 v1 v2 vs where sv: "styleVariations = v0 # v1 # v2 # vs"
    using styleVariations_first_three by blast
  show ?thesis
    by (simp add: generateHeadshots_def httpsUrl_def Let_def prompts_generateBatchPrompts
      generateHeadshotPrompts_take suggestedStyles_take sv processBatches.simps batchSize_def
      slice_def slice_index_def processBatch_def enumerate_eq_zip requestHeadshot_def
      string_of_nat_digit digit_char_def)
qed

theorem generateHeadshots_failed_retry_discards_run_witness:
  "generatedImages (fst (generateHeadshots
        \<lparr>modifyImage = (\<lambda>k r. if k = 0 \<or> k = 2 then ApiFailure ''overloaded''
                               else ApiData [''https://cdn.example/out.png'']),
         storageUpload = (\<lambda>f p. None), dateNow = 0\<rparr>
        (Some \<lparr>pid_file = \<lparr>file_name = ''me.png'', file_type = ''image/png'', file_size = 2048\<rparr>,
               pid_url = ''https://cdn.example/me.png'',
               pid_metadata = \<lparr>width = 100, height = 100, aspectRatio = Num 1,
                  format = ''image/png'', size_bytes = 2048, hasTransparency = Some True\<rparr>,
               pid_analysis = \<lparr>gender = GenderUnknown, ageGroup = AgeAdult,
                  attire = AttireUnknown, setting = SettingUnknown, quality = QualityLow\<rparr>\<rparr>)
        \<lparr>generatedImages = [], isGenerating = False, imageCount = 2, currentBatch = 0\<rparr>)) = []"
  using generateHeadshots_failed_retry_discards_run by simp

section \<open>The image utilities: converted files\<close>

lemma first_settled_mem: "first_settled cs = Some s \<Longrightarrow> Some s \<in> set cs"
proof (induction cs arbitrary: s rule: first_settled.induct)
  case 1
  then show ?case by simp
next
  case (2 cs)
  then show ?case by simp
next
  case (3 t r cs)
  then show ?case
    by (auto split: option.splits if_splits)
qed

lemma toLowerCase_append: "toLowerCase (xs @ ys) = toLowerCase xs @ toLowerCase ys"
  by (simp add: toLowerCase_def)

lemma toLowerCase_png: "toLowerCase ''.png'' = ''.png''"
  by (simp add: toLowerCase_def lower_char_def)

lemma not_endsWith_png_heic:
  "\<not> endsWith (xs @ ''.png'') ''.heic''" "\<not> endsWith (xs @ ''.png'') ''.heif''"
  by (auto simp: endsWith_suffix suffix_def append_eq_append_conv2 Cons_eq_append_conv
      append_eq_Cons_conv)

lemma replaceHeicExtension_not_heic:
  "\<not> endsWith (toLowerCase (replaceHeicExtension name)) ''.heic''
   \<and> \<not> endsWith (toLowerCase (replaceHeicExtension name)) ''.heif''"
  by (simp add: replaceHeicExtension_def toLowerCase_append toLowerCase_png not_endsWith_png_heic)

lemma newFile_png_not_heic:
  "\<not> isHeicFile (newFile blob (replaceHeicExtension name) ''image/png'')"
  using replaceHeicExtension_not_heic [of name]
  by (simp add: isHeicFile_def newFile_def)

lemma convertHeicToPng_resolved:
  "convertHeicToPng br file w = Some (Resolved g, w1) \<Longrightarrow>
   \<exists>blob. g = newFile blob (replaceHeicExtension (file_name file)) ''image/png''"
  by (auto simp: convertHeicToPng_def Let_def split: heic_result.splits)

lemma tryNativeHeicConversion_promise_resolved:
  assumes "tryNativeHeicConversion_promise file ev cv = Some (t, Resolved g)"
  shows "\<exists>blob. g = newFile blob (replaceHeicExtension (file_name file)) ''image/png''"
proof (cases ev)
  case (SetupThrows msg)
  with assms show ?thesis by simp
next
  case (Onload t0 w h)
  with assms have "first_settled
       [(case cv (setCanvasSize (Num (rat_of_nat w)) (Num (rat_of_nat h))) of
            DrawThrows msg \<Rightarrow> Some (t0, Rejected msg)
          | NoContext \<Rightarrow> Some (t0, Rejected ''Canvas context not available'')
          | BlobCallback d (Some blob) \<Rightarrow>
              Some (t0 + d, Resolved (newFile blob (replaceHeicExtension (file_name file)) ''image/png''))
          | BlobCallback d None \<Rightarrow>
              Some (t0 + d, Rejected ''Failed to convert HEIC using native browser support'')
          | NoCallback \<Rightarrow> None),
        None,
        timer 10000 (Rejected ''HEIC conversion timeout'')] = Some (t, Resolved g)"
    by simp
  from first_settled_mem [OF this] show ?thesis
    by (auto simp: timer_def split: canvas_event.splits option.splits)
next
  case (Onerror t0)
  with assms have "first_settled
       [None, Some (t0, Rejected ''Browser cannot load HEIC image''),
        timer 10000 (Rejected ''HEIC conversion timeout'')] = Some (t, Resolved g)"
    by simp
  from first_settled_mem [OF this] show ?thesis
    by (auto simp: timer_def)
next
  case NoEvent
  with assms have "first_settled
       [None, None, timer 10000 (Rejected ''HEIC conversion timeout'')] = Some (t, Resolved g)"
    by simp
  from first_settled_mem [OF this] show ?thesis
    by (auto simp: timer_def)
qed

lemma tryNativeHeicConversion_resolved:
  assumes "tryNativeHeicConversion br file w = Some (Resolved g, w1)"
  shows "\<exists>blob. g = newFile blob (replaceHeicExtension (file_name file)) ''image/png''"
  using assms
  by (auto simp: tryNativeHeicConversion_def await_def throw_def load_promise_def
      split: option.splits outcome.splits if_splits prod.splits
      dest: tryNativeHeicConversion_promise_resolved)

lemma convertImageToPng_heic_resolved:
  assumes "isHeicFile file" and "convertImageToPng br file w = Some (Resolved g, w1)"
  shows "\<exists>blob. g = newFile blob (replaceHeicExtension (file_name file)) ''image/png''"
  using assms
  by (auto simp: convertImageToPng_def try_catch_def throw_def
      split: option.splits outcome.splits prod.splits
      dest: convertHeicToPng_resolved tryNativeHeicConversion_resolved)

lemma convertImageToPng_heic_not_heic:
  "isHeicFile file \<Longrightarrow> convertImageToPng br file w = Some (Resolved g, w1) \<Longrightarrow> \<not> isHeicFile g"
  using convertImageToPng_heic_resolved newFile_png_not_heic by blast

text \<open>
  A converted file is a PNG whose name does not end in \<open>.heic\<close> or \<open>.heif\<close>, so the
  recursive calls of \<open>optimizeImageSize\<close> and \<open>getImageMetadata\<close> take the other branch.
\<close>

termination optimizeImageSize
  by (relation "measure (\<lambda>(br, file, maxWidth, maxHeight, w). if isHeicFile file then 1 else 0)")
    (auto dest: convertImageToPng_heic_not_heic)

termination getImageMetadata
  by (relation "measure (\<lambda>(br, file, w). if isHeicFile file then 1 else 0)")
    (auto dest: convertImageToPng_heic_not_heic)

declare optimizeImageSize.simps [simp del] getImageMetadata.simps [simp del]

section \<open>The image utilities: fallbacks and timers\<close>

lemma load_promise_world:
  "load_promise p w = Some (r, w') \<Longrightarrow>
   heicCalls w' = heicCalls w \<and> loads w' = loads w + 1 \<and> now w \<le> now w'"
  by (auto simp: load_promise_def split: option.splits)

lemma validateImageFile_world:
  "validateImageFile br file w = Some (r, w') \<Longrightarrow>
   heicCalls w' = heicCalls w \<and> loads w' = loads w + 1 \<and> now w \<le> now w'"
  unfolding validateImageFile_def by (rule load_promise_world)

lemma tryNativeHeicConversion_heicCalls:
  "tryNativeHeicConversion br file w = Some (r, w') \<Longrightarrow> heicCalls w' = heicCalls w"
  by (auto simp: tryNativeHeicConversion_def await_def throw_def
      split: option.splits outcome.splits prod.splits if_splits
      dest!: validateImageFile_world load_promise_world)

lemma convertHeicToPng_world:
  "convertHeicToPng br file w = Some (r, w') \<Longrightarrow>
   heicCalls w' = heicCalls w + 1 \<and> loads w' = loads w"
  by (auto simp: convertHeicToPng_def Let_def split: heic_result.splits)

lemma startsWith_HEIC_NOT_SUPPORTED: "startsWith HEIC_NOT_SUPPORTED ''HEIC_NOT_SUPPORTED:''"
  by (simp add: HEIC_NOT_SUPPORTED_def)

lemma convertImageToPng_heic:
  "isHeicFile file \<Longrightarrow>
   convertImageToPng br file w =
     (case convertHeicToPng br file w of
        None \<Rightarrow> None
      | Some (Resolved g, w1) \<Rightarrow> Some (Resolved g, w1)
      | Some (Rejected e, w1) \<Rightarrow>
          (case tryNativeHeicConversion br file w1 of
             None \<Rightarrow> None
           | Some (Resolved g, w2) \<Rightarrow> Some (Resolved g, w2)
           | Some (Rejected e2, w2) \<Rightarrow> Some (Rejected HEIC_NOT_SUPPORTED, w2)))"
  by (auto simp: convertImageToPng_def try_catch_def throw_def
      split: option.splits outcome.splits prod.splits)

lemma convertImageToPng_not_heic:
  "\<not> isHeicFile file \<Longrightarrow>
   convertImageToPng br file =
     await (validateImageFile br file) (\<lambda>isValid.
          if \<not> isValid then throw ''Invalid or corrupted image file''
          else (\<lambda>w. load_promise
                       (convertImageToPng_promise file (imageLoad br (loads w) file)
                          (canvasToBlob br (loads w))) w))"
  by (simp add: convertImageToPng_def)

lemma first_settled_timer: "first_settled (cs @ [timer d r]) \<noteq> None"
  by (induction cs rule: first_settled.induct) (auto simp: timer_def split: option.splits)

lemma first_settled_timer3: "first_settled [a, b, timer d r] \<noteq> None"
  using first_settled_timer [of "[a, b]" d r] by simp

lemma validateImageFile_promise_settles: "validateImageFile_promise ev \<noteq> None"
  by (cases ev) (simp_all add: first_settled_timer3 del: first_settled.simps)

lemma convertImageToPng_promise_settles: "convertImageToPng_promise file ev cv \<noteq> None"
  by (cases ev) (simp_all add: first_settled_timer3 del: first_settled.simps)

lemma convertImageToPng_promise_settled:
  assumes "convertImageToPng_promise file ev cv = Some (t, r)"
  shows "(\<forall>e. r = Rejected e \<longrightarrow> \<not> startsWith e ''HEIC_NOT_SUPPORTED:'')
       \<and> (\<forall>g. r = Resolved g \<longrightarrow>
            (\<exists>blob. g = newFile blob (replaceExtension (file_name file)) ''image/png''))"
proof (cases ev)
  case (SetupThrows msg)
  with assms show ?thesis by auto
next
  case (Onload t0 w h)
  with assms have "first_settled
       [(case cv (setCanvasSize (Num (rat_of_nat w)) (Num (rat_of_nat h))) of
            DrawThrows msg \<Rightarrow> Some (t0, Rejected (''Image processing failed: '' @ msg))
          | NoContext \<Rightarrow> Some (t0, Rejected ''Unable to get canvas rendering context'')
          | BlobCallback d (Some blob) \<Rightarrow>
              Some (t0 + d, Resolved (newFile blob (replaceExtension (file_name file)) ''image/png''))
          | BlobCallback d None \<Rightarrow>
              Some (t0 + d, Rejected ''Failed to convert image to PNG format'')
          | NoCallback \<Rightarrow> None),
        None,
        timer 10000 (Rejected ''Image loading timeout - file may be too large or corrupted'')]
       = Some (t, r)"
    by simp
  from first_settled_mem [OF this] show ?thesis
    by (auto simp: timer_def split: canvas_event.splits option.splits)
next
  case (Onerror t0)
  with assms have "first_settled
       [None,
        Some (t0, Rejected ''Unable to load image - file may be corrupted or in an unsupported format''),
        timer 10000 (Rejected ''Image loading timeout - file may be too large or corrupted'')]
       = Some (t, r)"
    by simp
  from first_settled_mem [OF this] show ?thesis
    by (auto simp: timer_def)
next
  case NoEvent
  with assms have "first_settled
       [None, None,
        timer 10000 (Rejected ''Image loading timeout - file may be too large or corrupted'')]
       = Some (t, r)"
    by simp
  from first_settled_mem [OF this] show ?thesis
    by (auto simp: timer_def)
qed

lemma validateImageFile_resolves:
  "validateImageFile br file w = Some (r, w') \<Longrightarrow> \<exists>isValid. r = Resolved isValid"
proof -
  assume a: "validateImageFile br file w = Some (r, w')"
  then obtain t where p: "validateImageFile_promise (imageLoad br (loads w) file) = Some (t, r)"
    by (auto simp: validateImageFile_def load_promise_def split: option.splits)
  show ?thesis
  proof (cases "imageLoad br (loads w) file")
    case (SetupThrows msg)
    with p show ?thesis by auto
  next
    case (Onload t0 iw ih)
    with p have "first_settled
        [Some (t0, Resolved (iw > 0 \<and> ih > 0)), None, timer 5000 (Resolved False)] = Some (t, r)"
      by simp
    from first_settled_mem [OF this] show ?thesis
      by (auto simp: timer_def)
  next
    case (Onerror t0)
    with p have "first_settled
        [None, Some (t0, Resolved False), timer 5000 (Resolved False)] = Some (t, r)"
      by simp
    from first_settled_mem [OF this] show ?thesis
      by (auto simp: timer_def)
  next
    case NoEvent
    with p have "first_settled [None, None, timer 5000 (Resolved False)] = Some (t, r)"
      by simp
    from first_settled_mem [OF this] show ?thesis
      by (auto simp: timer_def)
  qed
qed

lemma convertImageToPng_plain_settled:
  assumes plain: "\<not> isHeicFile file" and run: "convertImageToPng br file w = Some (r, w')"
  shows "(\<forall>e. r = Rejected e \<longrightarrow> \<not> startsWith e ''HEIC_NOT_SUPPORTED:'')
       \<and> (\<forall>g. r = Resolved g \<longrightarrow>
            (\<exists>blob. g = newFile blob (replaceExtension (file_name file)) ''image/png''))"
proof -
  from run [unfolded convertImageToPng_not_heic [OF plain] await_def]
  obtain v w1 where valid: "validateImageFile br file w = Some (v, w1)"
    by (auto split: option.splits)
  from validateImageFile_resolves [OF valid] obtain isValid where v: "v = Resolved isValid"
    by blast
  show ?thesis
  proof (cases isValid)
    case False
    with run valid v have "r = Rejected ''Invalid or corrupted image file''"
      by (simp add: convertImageToPng_not_heic [OF plain] await_def throw_def)
    then show ?thesis
      by simp
  next
    case True
    with run valid v have "load_promise
        (convertImageToPng_promise file (imageLoad br (loads w1) file) (canvasToBlob br (loads w1)))
        w1 = Some (r, w')"
      by (simp add: convertImageToPng_not_heic [OF plain] await_def)
    then obtain t where "convertImageToPng_promise file (imageLoad br (loads w1) file)
        (canvasToBlob br (loads w1)) = Some (t, r)"
      by (auto simp: load_promise_def split: option.splits)
    then show ?thesis
      by (rule convertImageToPng_promise_settled)
  qed
qed

text \<open>
  C3. For a HEIC or HEIF file \<open>convertImageToPng\<close> calls the library conversion first and
  returns its file when it succeeds, without loading any image; when the library throws,
  it tries the native conversion and returns its file when that succeeds; when that
  throws too, it throws the fixed message that starts with \<open>HEIC_NOT_SUPPORTED:\<close>, and it
  throws nothing else. It calls the library exactly once. Any other file does not enter
  this chain: it is validated and then drawn on a canvas by \<open>convertImageToPng\<close> itself,
  the library is not called and what it would do changes nothing, no error of the
  conversion starts with \<open>HEIC_NOT_SUPPORTED:\<close>, and the file returned has its last
  extension replaced by \<open>.png\<close>, which is not how the native HEIC conversion names it.
\<close>

theorem convertImageToPng_fallback_chain:
  "(isHeicFile file \<longrightarrow>
      convertImageToPng br file w =
        (case convertHeicToPng br file w of
           None \<Rightarrow> None
         | Some (Resolved g, w1) \<Rightarrow> Some (Resolved g, w1)
         | Some (Rejected e, w1) \<Rightarrow>
             (case tryNativeHeicConversion br file w1 of
                None \<Rightarrow> None
              | Some (Resolved g, w2) \<Rightarrow> Some (Resolved g, w2)
              | Some (Rejected e2, w2) \<Rightarrow> Some (Rejected HEIC_NOT_SUPPORTED, w2)))
      \<and> (\<forall>g w1. convertHeicToPng br file w = Some (Resolved g, w1) \<longrightarrow>
             convertImageToPng br file w = Some (Resolved g, w1) \<and> loads w1 = loads w)
      \<and> (\<forall>e w'. convertImageToPng br file w = Some (Rejected e, w') \<longrightarrow>
             e = HEIC_NOT_SUPPORTED \<and> startsWith e ''HEIC_NOT_SUPPORTED:'')
      \<and> (\<forall>r w'. convertImageToPng br file w = Some (r, w') \<longrightarrow>
             heicCalls w' = heicCalls w + 1))
   \<and> (\<not> isHeicFile file \<longrightarrow>
      convertImageToPng br file w =
        await (validateImageFile br file) (\<lambda>isValid.
          if \<not> isValid then throw ''Invalid or corrupted image file''
          else (\<lambda>w. load_promise
                       (convertImageToPng_promise file (imageLoad br (loads w) file)
                          (canvasToBlob br (loads w))) w)) w
      \<and> (\<forall>e w'. convertImageToPng br file w = Some (Rejected e, w') \<longrightarrow>
             \<not> startsWith e ''HEIC_NOT_SUPPORTED:'')
      \<and> (\<forall>g w'. convertImageToPng br file w = Some (Resolved g, w') \<longrightarrow>
             (\<exists>blob. g = newFile blob (replaceExtension (file_name file)) ''image/png''))
      \<and> (\<forall>r w'. convertImageToPng br file w = Some (r, w') \<longrightarrow> heicCalls w' = heicCalls w)
      \<and> convertImageToPng (br\<lparr>heic2any := lib\<rparr>) file w = convertImageToPng br file w)"
proof (intro conjI impI)
  assume heic: "isHeicFile file"
  note chain = convertImageToPng_heic [OF heic, of br w]
  show "convertImageToPng br file w =
        (case convertHeicToPng br file w of
           None \<Rightarrow> None
         | Some (Resolved g, w1) \<Rightarrow> Some (Resolved g, w1)
         | Some (Rejected e, w1) \<Rightarrow>
             (case tryNativeHeicConversion br file w1 of
                None \<Rightarrow> None
              | Some (Resolved g, w2) \<Rightarrow> Some (Resolved g, w2)
              | Some (Rejected e2, w2) \<Rightarrow> Some (Rejected HEIC_NOT_SUPPORTED, w2)))"
    by (rule chain)
  show "\<forall>g w1. convertHeicToPng br file w = Some (Resolved g, w1) \<longrightarrow>
             convertImageToPng br file w = Some (Resolved g, w1) \<and> loads w1 = loads w"
    using chain by (auto dest: convertHeicToPng_world)
  show "\<forall>e w'. convertImageToPng br file w = Some (Rejected e, w') \<longrightarrow>
             e = HEIC_NOT_SUPPORTED \<and> startsWith e ''HEIC_NOT_SUPPORTED:''"
    using chain startsWith_HEIC_NOT_SUPPORTED
    by (auto split: option.splits outcome.splits prod.splits)
  show "\<forall>r w'. convertImageToPng br file w = Some (r, w') \<longrightarrow> heicCalls w' = heicCalls w + 1"
    using chain
    by (auto split: option.splits outcome.splits prod.splits
        dest!: convertHeicToPng_world tryNativeHeicConversion_heicCalls)
next
  assume plain: "\<not> isHeicFile file"
  show "convertImageToPng br file w =
        await (validateImageFile br file) (\<lambda>isValid.
          if \<not> isValid then throw ''Invalid or corrupted image file''
          else (\<lambda>w. load_promise
                       (convertImageToPng_promise file (imageLoad br (loads w) file)
                          (canvasToBlob br (loads w))) w)) w"
    by (simp only: convertImageToPng_not_heic [OF plain])
  show "\<forall>e w'. convertImageToPng br file w = Some (Rejected e, w') \<longrightarrow>
             \<not> startsWith e ''HEIC_NOT_SUPPORTED:''"
    using convertImageToPng_plain_settled [OF plain] by blast
  show "\<forall>g w'. convertImageToPng br file w = Some (Resolved g, w') \<longrightarrow>
             (\<exists>blob. g = newFile blob (replaceExtension (file_name file)) ''image/png'')"
    using convertImageToPng_plain_settled [OF plain] by blast
  show "\<forall>r w'. convertImageToPng br file w = Some (r, w') \<longrightarrow> heicCalls w' = heicCalls w"
    by (auto simp: convertImageToPng_not_heic [OF plain] await_def throw_def
      split: option.splits outcome.splits prod.splits if_splits
      dest!: validateImageFile_world load_promise_world)
  show "convertImageToPng (br\<lparr>heic2any := lib\<rparr>) file w = convertImageToPng br file w"
    by (auto simp: convertImageToPng_not_heic [OF plain] await_def validateImageFile_def
        split: option.splits outcome.splits prod.splits)
qed

theorem convertImageToPng_fallback_chain_witness:
  "isHeicFile \<lparr>file_name = ''IMG_0001.HEIC'', file_type = ''image/heic'', file_size = 3000000\<rparr>
   \<and> convertImageToPng
        \<lparr>imageLoad = (\<lambda>k f. Onerror 10),
         canvasToBlob = (\<lambda>k size. NoCallback),
         heic2any = (\<lambda>k f. HeicBlob 40 1000),
         toDouble = (\<lambda>x. x)\<rparr>
        \<lparr>file_name = ''IMG_0001.HEIC'', file_type = ''image/heic'', file_size = 3000000\<rparr>
        \<lparr>now = 0, loads = 0, heicCalls = 0\<rparr>
     = Some (Resolved \<lparr>file_name = ''IMG_0001.png'', file_type = ''image/png'', file_size = 1000\<rparr>,
             \<lparr>now = 40, loads = 0, heicCalls = 1\<rparr>)
   \<and> convertImageToPng
        \<lparr>imageLoad = (\<lambda>k f. Onload 30 4032 3024),
         canvasToBlob = (\<lambda>k size. BlobCallback 200 (Some 5000000)),
         heic2any = (\<lambda>k f. HeicThrows 40 (Some ''ERR_LIBHEIF format not supported'')),
         toDouble = (\<lambda>x. x)\<rparr>
        \<lparr>file_name = ''IMG_0001.HEIC'', file_type = ''image/heic'', file_size = 3000000\<rparr>
        \<lparr>now = 0, loads = 0, heicCalls = 0\<rparr>
     = Some (Resolved \<lparr>file_name = ''IMG_0001.png'', file_type = ''image/png'', file_size = 5000000\<rparr>,
             \<lparr>now = 300, loads = 2, heicCalls = 1\<rparr>)
   \<and> convertImageToPng
        \<lparr>imageLoad = (\<lambda>k f. Onerror 10),
         canvasToBlob = (\<lambda>k size. NoCallback),
         heic2any = (\<lambda>k f. HeicThrows 40 None),
         toDouble = (\<lambda>x. x)\<rparr>
        \<lparr>file_name = ''IMG_0001.HEIC'', file_type = ''image/heic'', file_size = 3000000\<rparr>
        \<lparr>now = 0, loads = 0, heicCalls = 0\<rparr>
     = Some (Rejected HEIC_NOT_SUPPORTED, \<lparr>now = 50, loads = 1, heicCalls = 1\<rparr>)
   \<and> \<not> isHeicFile \<lparr>file_name = ''me.jpg'', file_type = ''image/jpeg'', file_size = 2048\<rparr>
   \<and> convertImageToPng
        \<lparr>imageLoad = (\<lambda>k f. Onload 30 4032 3024),
         canvasToBlob = (\<lambda>k size. BlobCallback 200 (Some 5000000)),
         heic2any = (\<lambda>k f. HeicThrows 40 (Some ''ERR_LIBHEIF format not supported'')),
         toDouble = (\<lambda>x. x)\<rparr>
        \<lparr>file_name = ''me.jpg'', file_type = ''image/jpeg'', file_size = 2048\<rparr>
        \<lparr>now = 0, loads = 0, heicCalls = 0\<rparr>
     = Some (Resolved \<lparr>file_name = ''me.png'', file_type = ''image/png'', file_size = 5000000\<rparr>,
             \<lparr>now = 260, loads = 2, heicCalls = 0\<rparr>)
   \<and> convertImageToPng
        \<lparr>imageLoad = (\<lambda>k f. Onerror 10),
         canvasToBlob = (\<lambda>k size. NoCallback),
         heic2any = (\<lambda>k f. HeicThrows 40 None),
         toDouble = (\<lambda>x. x)\<rparr>
        \<lparr>file_name = ''me.jpg'', file_type = ''image/jpeg'', file_size = 2048\<rparr>
        \<lparr>now = 0, loads = 0, heicCalls = 0\<rparr>
     = Some (Rejected ''Invalid or corrupted image file'', \<lparr>now = 10, loads = 1, heicCalls = 0\<rparr>)
   \<and> \<not> startsWith ''Invalid or corrupted image file'' ''HEIC_NOT_SUPPORTED:''
   \<and> convertImageToPng
        \<lparr>imageLoad = (\<lambda>k f. Onload 30 4032 3024),
         canvasToBlob = (\<lambda>k size. BlobCallback 200 (Some 5000000)),
         heic2any = (\<lambda>k f. HeicPending),
         toDouble = (\<lambda>x. x)\<rparr>
        \<lparr>file_name = ''me.jpg'', file_type = ''image/jpeg'', file_size = 2048\<rparr>
        \<lparr>now = 0, loads = 0, heicCalls = 0\<rparr>
     = convertImageToPng
        \<lparr>imageLoad = (\<lambda>k f. Onload 30 4032 3024),
         canvasToBlob = (\<lambda>k size. BlobCallback 200 (Some 5000000)),
         heic2any = (\<lambda>k f. HeicThrows 40 (Some ''ERR_LIBHEIF format not supported'')),
         toDouble = (\<lambda>x. x)\<rparr>
        \<lparr>file_name = ''me.jpg'', file_type = ''image/jpeg'', file_size = 2048\<rparr>
        \<lparr>now = 0, loads = 0, heicCalls = 0\<rparr>"
proof -
  let ?heic = "\<lparr>file_name = ''IMG_0001.HEIC'', file_type = ''image/heic'', file_size = 3000000\<rparr>"
  let ?jpg = "\<lparr>file_name = ''me.jpg'', file_type = ''image/jpeg'', file_size = 2048\<rparr>"
  let ?library = "\<lparr>imageLoad = (\<lambda>k f. Onerror 10),
         canvasToBlob = (\<lambda>k size. NoCallback),
         heic2any = (\<lambda>k f. HeicBlob 40 1000),
         toDouble = (\<lambda>x. x)\<rparr>"
  let ?safari = "\<lparr>imageLoad = (\<lambda>k f. Onload 30 4032 3024),
         canvasToBlob = (\<lambda>k size. BlobCallback 200 (Some 5000000)),
         heic2any = (\<lambda>k f. HeicThrows 40 (Some ''ERR_LIBHEIF format not supported'')),
         toDouble = (\<lambda>x. x)\<rparr>"
  let ?other = "\<lparr>imageLoad = (\<lambda>k f. Onerror 10),
         canvasToBlob = (\<lambda>k size. NoCallback),
         heic2any = (\<lambda>k f. HeicThrows 40 None),
         toDouble = (\<lambda>x. x)\<rparr>"
  let ?w = "\<lparr>now = 0, loads = 0, heicCalls = 0\<rparr>"
  have heic: "isHeicFile ?heic"
    by (simp add: isHeicFile_def)
  have jpg: "\<not> isHeicFile ?jpg"
    by (simp add: isHeicFile_def toLowerCase_def lower_char_def endsWith_def)
  have name: "replaceHeicExtension ''IMG_0001.HEIC'' = ''IMG_0001.png''"
    by (simp add: replaceHeicExtension_def toLowerCase_def lower_char_def endsWith_def)
  have jpgname: "replaceExtension ''me.jpg'' = ''me.png''"
    by (simp add: replaceExtension_def hasExtension_def afterLastDot_def)
  have lib0: "convertHeicToPng ?library ?heic ?w
      = Some (Resolved \<lparr>file_name = ''IMG_0001.png'', file_type = ''image/png'', file_size = 1000\<rparr>,
              \<lparr>now = 40, loads = 0, heicCalls = 1\<rparr>)"
    by (simp add: convertHeicToPng_def newFile_def name)
  have lib1: "convertHeicToPng ?safari ?heic ?w
      = Some (Rejected (''HEIC_CONVERSION_FAILED: ERR_LIBHEIF format not supported''
                @ ''. Please convert your image to JPEG or PNG format on your device before uploading.''),
              \<lparr>now = 40, loads = 0, heicCalls = 1\<rparr>)"
    by (simp add: convertHeicToPng_def)
  have native1: "tryNativeHeicConversion ?safari ?heic \<lparr>now = 40, loads = 0, heicCalls = 1\<rparr>
      = Some (Resolved \<lparr>file_name = ''IMG_0001.png'', file_type = ''image/png'', file_size = 5000000\<rparr>,
              \<lparr>now = 300, loads = 2, heicCalls = 1\<rparr>)"
    by (simp add: tryNativeHeicConversion_def await_def validateImageFile_def load_promise_def
        timer_def newFile_def name)
  have lib2: "convertHeicToPng ?other ?heic ?w
      = Some (Rejected (''HEIC_CONVERSION_FAILED: HEIC format not supported in this browser''
                @ ''. Please convert your image to JPEG or PNG format on your device before uploading.''),
              \<lparr>now = 40, loads = 0, heicCalls = 1\<rparr>)"
    by (simp add: convertHeicToPng_def)
  have native2: "tryNativeHeicConversion ?other ?heic \<lparr>now = 40, loads = 0, heicCalls = 1\<rparr>
      = Some (Rejected ''Browser does not support HEIC format natively'',
              \<lparr>now = 50, loads = 1, heicCalls = 1\<rparr>)"
    by (simp add: tryNativeHeicConversion_def await_def validateImageFile_def load_promise_def
        timer_def throw_def)
  have plain1: "await (validateImageFile ?safari ?jpg) (\<lambda>isValid.
          if \<not> isValid then throw ''Invalid or corrupted image file''
          else (\<lambda>w. load_promise
                       (convertImageToPng_promise ?jpg (imageLoad ?safari (loads w) ?jpg)
                          (canvasToBlob ?safari (loads w))) w)) ?w
      = Some (Resolved \<lparr>file_name = ''me.png'', file_type = ''image/png'', file_size = 5000000\<rparr>,
              \<lparr>now = 260, loads = 2, heicCalls = 0\<rparr>)"
    by (simp add: await_def validateImageFile_def load_promise_def timer_def newFile_def jpgname)
  have plain2: "await (validateImageFile ?other ?jpg) (\<lambda>isValid.
          if \<not> isValid then throw ''Invalid or corrupted image file''
          else (\<lambda>w. load_promise
                       (convertImageToPng_promise ?jpg (imageLoad ?other (loads w) ?jpg)
                          (canvasToBlob ?other (loads w))) w)) ?w
      = Some (Rejected ''Invalid or corrupted image file'', \<lparr>now = 10, loads = 1, heicCalls = 0\<rparr>)"
    by (simp add: await_def validateImageFile_def load_promise_def timer_def throw_def)
  note library = convertImageToPng_fallback_chain
    [of ?heic ?library ?w, THEN conjunct1, THEN mp, OF heic]
  note safari = convertImageToPng_fallback_chain
    [of ?heic ?safari ?w, THEN conjunct1, THEN mp, OF heic]
  note other = convertImageToPng_fallback_chain
    [of ?heic ?other ?w, THEN conjunct1, THEN mp, OF heic]
  note plain_safari = convertImageToPng_fallback_chain
    [of ?jpg ?safari ?w "\<lambda>k f. HeicPending", THEN conjunct2, THEN mp, OF jpg]
  note plain_other = convertImageToPng_fallback_chain
    [of ?jpg ?other ?w, THEN conjunct2, THEN mp, OF jpg]
  have c0: "convertImageToPng ?library ?heic ?w
     = Some (Resolved \<lparr>file_name = ''IMG_0001.png'', file_type = ''image/png'', file_size = 1000\<rparr>,
             \<lparr>now = 40, loads = 0, heicCalls = 1\<rparr>)"
    using library [THEN conjunct2, THEN conjunct1] lib0
    by blast
  have c1: "convertImageToPng ?safari ?heic ?w
     = Some (Resolved \<lparr>file_name = ''IMG_0001.png'', file_type = ''image/png'', file_size = 5000000\<rparr>,
             \<lparr>now = 300, loads = 2, heicCalls = 1\<rparr>)"
    using safari [THEN conjunct1]
    by (simp only: lib1 native1 option.case outcome.case prod.case)
  have c2: "convertImageToPng ?other ?heic ?w
     = Some (Rejected HEIC_NOT_SUPPORTED, \<lparr>now = 50, loads = 1, heicCalls = 1\<rparr>)"
    using other [THEN conjunct1]
    by (simp only: lib2 native2 option.case outcome.case prod.case)
  have c3: "convertImageToPng ?safari ?jpg ?w
     = Some (Resolved \<lparr>file_name = ''me.png'', file_type = ''image/png'', file_size = 5000000\<rparr>,
             \<lparr>now = 260, loads = 2, heicCalls = 0\<rparr>)"
    using plain_safari [THEN conjunct1]
    by (simp only: plain1)
  have c4: "convertImageToPng ?other ?jpg ?w
     = Some (Rejected ''Invalid or corrupted image file'', \<lparr>now = 10, loads = 1, heicCalls = 0\<rparr>)"
    using plain_other [THEN conjunct1]
    by (simp only: plain2)
  have c5: "\<not> startsWith ''Invalid or corrupted image file'' ''HEIC_NOT_SUPPORTED:''"
    using plain_other [THEN conjunct2, THEN conjunct1] c4
    by blast
  have "convertImageToPng (?safari\<lparr>heic2any := (\<lambda>k f. HeicPending)\<rparr>) ?jpg ?w
     = convertImageToPng ?safari ?jpg ?w"
    by (rule plain_safari [THEN conjunct2, THEN conjunct2, THEN conjunct2, THEN conjunct2])
  then have c6: "convertImageToPng
        \<lparr>imageLoad = (\<lambda>k f. Onload 30 4032 3024),
         canvasToBlob = (\<lambda>k size. BlobCallback 200 (Some 5000000)),
         heic2any = (\<lambda>k f. HeicPending),
         toDouble = (\<lambda>x. x)\<rparr> ?jpg ?w
     = convertImageToPng ?safari ?jpg ?w"
    by simp
  show ?thesis
    using heic c0 c1 c2 jpg c3 c4 c5 c6 by (intro conjI)
qed

lemma first_settled_timer_bound:
  "\<exists>t r. first_settled (cs @ [timer d r0]) = Some (t, r) \<and> t \<le> d"
proof (induction cs)
  case Nil
  show ?case by (simp add: timer_def)
next
  case (Cons c cs)
  then obtain t r where ih: "first_settled (cs @ [timer d r0]) = Some (t, r)" "t \<le> d"
    by blast
  show ?case
  proof (cases c)
    case None
    with ih show ?thesis by simp
  next
    case (Some s)
    obtain t0 r1 where "s = (t0, r1)" by (cases s)
    with Some ih show ?thesis by auto
  qed
qed

lemma first_settled_timer3_le:
  "first_settled [a, b, timer d r0] = Some (t, r) \<Longrightarrow> t \<le> d"
  using first_settled_timer_bound [of "[a, b]" d r0] by simp

lemma validateImageFile_promise_bound:
  "\<exists>t b. validateImageFile_promise ev = Some (t, Resolved b) \<and> t \<le> 5000"
  by (cases ev) (auto simp: timer_def)

lemma promise_bound:
  assumes "p \<noteq> None" and "\<And>t r. p = Some (t, r) \<Longrightarrow> t \<le> d"
  shows "\<exists>t r. p = Some (t, r) \<and> t \<le> d"
  using assms by (cases p) auto

lemma getImageMetadata_promise_settles: "getImageMetadata_promise file ev \<noteq> None"
  by (cases ev) (simp_all add: first_settled_timer3 del: first_settled.simps)

lemma getImageMetadata_promise_le:
  "getImageMetadata_promise file ev = Some (t, r) \<Longrightarrow> t \<le> 5000"
  by (cases ev) (auto dest: first_settled_timer3_le simp del: first_settled.simps)

lemma convertImageToPng_promise_le:
  "convertImageToPng_promise file ev cv = Some (t, r) \<Longrightarrow> t \<le> 10000"
  by (cases ev) (auto dest: first_settled_timer3_le simp del: first_settled.simps)

lemma tryNativeHeicConversion_promise_settles:
  "tryNativeHeicConversion_promise file ev cv \<noteq> None"
  by (cases ev) (simp_all add: first_settled_timer3 del: first_settled.simps)

lemma tryNativeHeicConversion_promise_le:
  "tryNativeHeicConversion_promise file ev cv = Some (t, r) \<Longrightarrow> t \<le> 10000"
  by (cases ev) (auto dest: first_settled_timer3_le simp del: first_settled.simps)

lemma optimizeImageSize_promise_settles:
  "optimizeImageSize_promise file mw mh fl ev cv \<noteq> None"
  by (cases ev) (simp_all add: first_settled_timer3 del: first_settled.simps)

lemma optimizeImageSize_promise_le:
  "optimizeImageSize_promise file mw mh fl ev cv = Some (t, r) \<Longrightarrow> t \<le> 10000"
  by (cases ev) (auto dest: first_settled_timer3_le simp del: first_settled.simps)

lemma getImageMetadata_promise_bound:
  "\<exists>t r. getImageMetadata_promise file ev = Some (t, r) \<and> t \<le> 5000"
  by (rule promise_bound [OF getImageMetadata_promise_settles getImageMetadata_promise_le])

lemma convertImageToPng_promise_bound:
  "\<exists>t r. convertImageToPng_promise file ev cv = Some (t, r) \<and> t \<le> 10000"
  by (rule promise_bound [OF convertImageToPng_promise_settles convertImageToPng_promise_le])

lemma tryNativeHeicConversion_promise_bound:
  "\<exists>t r. tryNativeHeicConversion_promise file ev cv = Some (t, r) \<and> t \<le> 10000"
  by (rule promise_bound
      [OF tryNativeHeicConversion_promise_settles tryNativeHeicConversion_promise_le])

lemma optimizeImageSize_promise_bound:
  "\<exists>t r. optimizeImageSize_promise file mw mh fl ev cv = Some (t, r) \<and> t \<le> 10000"
  by (rule promise_bound [OF optimizeImageSize_promise_settles optimizeImageSize_promise_le])

lemma validateImageFile_bound:
  "\<exists>b w'. validateImageFile br file w = Some (Resolved b, w') \<and> now w' \<le> now w + 5000"
  using validateImageFile_promise_bound [of "imageLoad br (loads w) file"]
  by (auto simp: validateImageFile_def load_promise_def)

lemma validated_load_bound:
  assumes "\<And>w. \<exists>t r. P w = Some (t, r) \<and> t \<le> d"
  shows "\<exists>r w'. await (validateImageFile br file)
            (\<lambda>isValid. if \<not> isValid then throw msg else (\<lambda>w. load_promise (P w) w)) w
          = Some (r, w') \<and> now w' \<le> now w + 5000 + d"
proof -
  obtain b w1 where v: "validateImageFile br file w = Some (Resolved b, w1)"
    and t1: "now w1 \<le> now w + 5000"
    using validateImageFile_bound by blast
  show ?thesis
  proof (cases b)
    case False
    with v t1 show ?thesis
      by (simp add: await_def throw_def)
  next
    case True
    obtain t r where "P w1 = Some (t, r)" "t \<le> d"
      using assms by blast
    with v t1 True show ?thesis
      by (simp add: await_def load_promise_def)
  qed
qed

lemma tryNativeHeicConversion_bound:
  "\<exists>r w'. tryNativeHeicConversion br file w = Some (r, w') \<and> now w' \<le> now w + 15000"
proof -
  have "\<exists>r w'. tryNativeHeicConversion br file w = Some (r, w') \<and> now w' \<le> now w + 5000 + 10000"
    unfolding tryNativeHeicConversion_def
    by (rule validated_load_bound) (rule tryNativeHeicConversion_promise_bound)
  then show ?thesis by (simp add: add.commute)
qed

lemma convertImageToPng_plain_bound:
  assumes "\<not> isHeicFile file"
  shows "\<exists>r w'. convertImageToPng br file w = Some (r, w') \<and> now w' \<le> now w + 15000"
proof -
  have "\<exists>r w'. convertImageToPng br file w = Some (r, w') \<and> now w' \<le> now w + 5000 + 10000"
    unfolding convertImageToPng_not_heic [OF assms]
    by (rule validated_load_bound) (rule convertImageToPng_promise_bound)
  then show ?thesis by (simp add: add.commute)
qed

lemma optimizeImageSize_not_heic:
  "\<not> isHeicFile file \<Longrightarrow>
   optimizeImageSize br file maxWidth maxHeight w =
     await (validateImageFile br file) (\<lambda>isValid.
          if \<not> isValid then throw ''Invalid image file for optimization''
          else (\<lambda>w. load_promise
                       (optimizeImageSize_promise file maxWidth maxHeight (toDouble br)
                          (imageLoad br (loads w) file) (canvasToBlob br (loads w))) w)) w"
  by (simp add: optimizeImageSize.simps)

lemma getImageMetadata_not_heic:
  "\<not> isHeicFile file \<Longrightarrow>
   getImageMetadata br file w =
     await (validateImageFile br file) (\<lambda>isValid.
          if \<not> isValid then throw ''Invalid image file for metadata extraction''
          else (\<lambda>w. load_promise
                       (getImageMetadata_promise file (imageLoad br (loads w) file)) w)) w"
  by (simp add: getImageMetadata.simps)

lemma optimizeImageSize_plain_bound:
  assumes "\<not> isHeicFile file"
  shows "\<exists>r w'. optimizeImageSize br file mw mh w = Some (r, w') \<and> now w' \<le> now w + 15000"
proof -
  have "\<exists>r w'. optimizeImageSize br file mw mh w = Some (r, w') \<and> now w' \<le> now w + 5000 + 10000"
    unfolding optimizeImageSize_not_heic [OF assms]
    by (rule validated_load_bound) (rule optimizeImageSize_promise_bound)
  then show ?thesis by (simp add: add.commute)
qed

lemma getImageMetadata_plain_bound:
  assumes "\<not> isHeicFile file"
  shows "\<exists>r w'. getImageMetadata br file w = Some (r, w') \<and> now w' \<le> now w + 10000"
proof -
  have "\<exists>r w'. getImageMetadata br file w = Some (r, w') \<and> now w' \<le> now w + 5000 + 5000"
    unfolding getImageMetadata_not_heic [OF assms]
    by (rule validated_load_bound) (rule getImageMetadata_promise_bound)
  then show ?thesis by (simp add: add.commute)
qed

lemma convertHeicToPng_settles:
  "heic2any br (heicCalls w) file \<noteq> HeicPending \<Longrightarrow> convertHeicToPng br file w \<noteq> None"
  by (auto simp: convertHeicToPng_def Let_def split: heic_result.splits)

lemma convertImageToPng_heic_settles:
  assumes "isHeicFile file" and "heic2any br (heicCalls w) file \<noteq> HeicPending"
  shows "convertImageToPng br file w \<noteq> None"
proof -
  obtain r w1 where lib: "convertHeicToPng br file w = Some (r, w1)"
    using convertHeicToPng_settles [OF assms(2)] by auto
  obtain r2 w2 where "tryNativeHeicConversion br file w1 = Some (r2, w2)"
    using tryNativeHeicConversion_bound by blast
  with lib show ?thesis
    by (simp add: convertImageToPng_heic [OF assms(1)] split: outcome.splits)
qed

lemma optimizeImageSize_heic_settles:
  assumes "isHeicFile file" and "heic2any br (heicCalls w) file \<noteq> HeicPending"
  shows "optimizeImageSize br file mw mh w \<noteq> None"
proof -
  obtain r w1 where c: "convertImageToPng br file w = Some (r, w1)"
    using convertImageToPng_heic_settles [OF assms] by auto
  show ?thesis
  proof (cases r)
    case (Rejected e)
    with c assms(1) show ?thesis
      by (simp add: optimizeImageSize.simps [of br "file"])
  next
    case (Resolved g)
    with c assms(1) have "\<not> isHeicFile g"
      using convertImageToPng_heic_not_heic by blast
    then obtain r' w' where "optimizeImageSize br g mw mh w1 = Some (r', w')"
      using optimizeImageSize_plain_bound by blast
    with c Resolved assms(1) show ?thesis
      by (simp add: optimizeImageSize.simps [of br "file"])
  qed
qed

lemma getImageMetadata_heic_settles:
  assumes "isHeicFile file" and "heic2any br (heicCalls w) file \<noteq> HeicPending"
  shows "getImageMetadata br file w \<noteq> None"
proof -
  obtain r w1 where c: "convertImageToPng br file w = Some (r, w1)"
    using convertImageToPng_heic_settles [OF assms] by auto
  show ?thesis
  proof (cases r)
    case (Rejected e)
    with c assms(1) show ?thesis
      by (simp add: getImageMetadata.simps [of br "file"])
  next
    case (Resolved g)
    with c assms(1) have "\<not> isHeicFile g"
      using convertImageToPng_heic_not_heic by blast
    then obtain r' w' where "getImageMetadata br g w1 = Some (r', w')"
      using getImageMetadata_plain_bound by blast
    with c Resolved assms(1) show ?thesis
      by (simp add: getImageMetadata.simps [of br "file"])
  qed
qed


text \<open>
  C7. Every promise that waits for an image to load settles no later than its timer,
  whatever the browser does: after 5000 ms in \<open>validateImageFile\<close> (resolving false) and
  in \<open>getImageMetadata\<close> (rejecting), after 10000 ms in \<open>convertImageToPng\<close>,
  \<open>tryNativeHeicConversion\<close> and \<open>optimizeImageSize\<close> (rejecting); with no load event at
  all it settles at the timer with the timeout outcome. So the functions always settle on
  a file that is not HEIC, within the sum of the validation's and their own timer; on a
  HEIC file they settle whenever the library call does.
\<close>

theorem image_load_promises_settle:
  "(\<exists>t b. validateImageFile_promise ev = Some (t, Resolved b) \<and> t \<le> 5000)
   \<and> validateImageFile_promise NoEvent = Some (5000, Resolved False)
   \<and> (\<exists>t r. getImageMetadata_promise f ev = Some (t, r) \<and> t \<le> 5000)
   \<and> getImageMetadata_promise f NoEvent
       = Some (5000, Rejected ''Metadata extraction timeout'')
   \<and> (\<exists>t r. convertImageToPng_promise f ev cv = Some (t, r) \<and> t \<le> 10000)
   \<and> convertImageToPng_promise f NoEvent cv
       = Some (10000, Rejected ''Image loading timeout - file may be too large or corrupted'')
   \<and> (\<exists>t r. tryNativeHeicConversion_promise f ev cv = Some (t, r) \<and> t \<le> 10000)
   \<and> tryNativeHeicConversion_promise f NoEvent cv
       = Some (10000, Rejected ''HEIC conversion timeout'')
   \<and> (\<exists>t r. optimizeImageSize_promise f mw mh fl ev cv = Some (t, r) \<and> t \<le> 10000)
   \<and> optimizeImageSize_promise f mw mh fl NoEvent cv
       = Some (10000, Rejected ''Image optimization timeout'')
   \<and> (\<exists>b w'. validateImageFile br f w = Some (Resolved b, w') \<and> now w' \<le> now w + 5000)
   \<and> (\<exists>r w'. tryNativeHeicConversion br f w = Some (r, w') \<and> now w' \<le> now w + 15000)
   \<and> (\<not> isHeicFile f \<longrightarrow>
        (\<exists>r w'. getImageMetadata br f w = Some (r, w') \<and> now w' \<le> now w + 10000)
        \<and> (\<exists>r w'. convertImageToPng br f w = Some (r, w') \<and> now w' \<le> now w + 15000)
        \<and> (\<exists>r w'. optimizeImageSize br f mw mh w = Some (r, w') \<and> now w' \<le> now w + 15000))
   \<and> (isHeicFile f \<and> heic2any br (heicCalls w) f \<noteq> HeicPending \<longrightarrow>
        getImageMetadata br f w \<noteq> None
        \<and> convertImageToPng br f w \<noteq> None
        \<and> optimizeImageSize br f mw mh w \<noteq> None)"
proof -
  have timeouts:
    "validateImageFile_promise NoEvent = Some (5000, Resolved False)"
    "getImageMetadata_promise f NoEvent
       = Some (5000, Rejected ''Metadata extraction timeout'')"
    "convertImageToPng_promise f NoEvent cv
       = Some (10000, Rejected ''Image loading timeout - file may be too large or corrupted'')"
    "tryNativeHeicConversion_promise f NoEvent cv
       = Some (10000, Rejected ''HEIC conversion timeout'')"
    "optimizeImageSize_promise f mw mh fl NoEvent cv
       = Some (10000, Rejected ''Image optimization timeout'')"
    by (simp_all add: timer_def)
  have plain: "\<not> isHeicFile f \<longrightarrow>
        (\<exists>r w'. getImageMetadata br f w = Some (r, w') \<and> now w' \<le> now w + 10000)
        \<and> (\<exists>r w'. convertImageToPng br f w = Some (r, w') \<and> now w' \<le> now w + 15000)
        \<and> (\<exists>r w'. optimizeImageSize br f mw mh w = Some (r, w') \<and> now w' \<le> now w + 15000)"
    using getImageMetadata_plain_bound convertImageToPng_plain_bound
      optimizeImageSize_plain_bound by blast
  have heic: "isHeicFile f \<and> heic2any br (heicCalls w) f \<noteq> HeicPending \<longrightarrow>
        getImageMetadata br f w \<noteq> None
        \<and> convertImageToPng br f w \<noteq> None
        \<and> optimizeImageSize br f mw mh w \<noteq> None"
    using getImageMetadata_heic_settles convertImageToPng_heic_settles
      optimizeImageSize_heic_settles by blast
  show ?thesis
    using timeouts plain heic
      validateImageFile_promise_bound [of ev]
      getImageMetadata_promise_bound [of f ev]
      convertImageToPng_promise_bound [of f ev cv]
      tryNativeHeicConversion_promise_bound [of f ev cv]
      optimizeImageSize_promise_bound [of f mw mh fl ev cv]
      validateImageFile_bound [of br f w]
      tryNativeHeicConversion_bound [of br f w]
    by (intro conjI) assumption+
qed

theorem image_load_promises_settle_witness:
  "\<not> isHeicFile \<lparr>file_name = ''me.jpg'', file_type = ''image/jpeg'', file_size = 2048\<rparr>
   \<and> (\<exists>r w'. optimizeImageSize
          \<lparr>imageLoad = (\<lambda>k f. if k = 0 then Onload 100 800 600 else NoEvent),
           canvasToBlob = (\<lambda>k size. NoCallback),
           heic2any = (\<lambda>k f. HeicPending),
           toDouble = (\<lambda>x. x)\<rparr>
          \<lparr>file_name = ''me.jpg'', file_type = ''image/jpeg'', file_size = 2048\<rparr> 1024 1024
          \<lparr>now = 0, loads = 0, heicCalls = 0\<rparr> = Some (r, w')
        \<and> now w' \<le> 15000)
   \<and> optimizeImageSize
          \<lparr>imageLoad = (\<lambda>k f. if k = 0 then Onload 100 800 600 else NoEvent),
           canvasToBlob = (\<lambda>k size. NoCallback),
           heic2any = (\<lambda>k f. HeicPending),
           toDouble = (\<lambda>x. x)\<rparr>
          \<lparr>file_name = ''me.jpg'', file_type = ''image/jpeg'', file_size = 2048\<rparr> 1024 1024
          \<lparr>now = 0, loads = 0, heicCalls = 0\<rparr>
       = Some (Rejected ''Image optimization timeout'', \<lparr>now = 10100, loads = 2, heicCalls = 0\<rparr>)
   \<and> isHeicFile \<lparr>file_name = ''IMG_0001.HEIC'', file_type = ''image/heic'', file_size = 3000000\<rparr>
   \<and> optimizeImageSize
          \<lparr>imageLoad = (\<lambda>k f. NoEvent),
           canvasToBlob = (\<lambda>k size. NoCallback),
           heic2any = (\<lambda>k f. HeicThrows 40 None),
           toDouble = (\<lambda>x. x)\<rparr>
          \<lparr>file_name = ''IMG_0001.HEIC'', file_type = ''image/heic'', file_size = 3000000\<rparr>
          1024 1024 \<lparr>now = 0, loads = 0, heicCalls = 0\<rparr> \<noteq> None"
proof -
  let ?jpg = "\<lparr>file_name = ''me.jpg'', file_type = ''image/jpeg'', file_size = 2048\<rparr>"
  let ?heic = "\<lparr>file_name = ''IMG_0001.HEIC'', file_type = ''image/heic'', file_size = 3000000\<rparr>"
  let ?br = "\<lparr>imageLoad = (\<lambda>k f. if k = 0 then Onload 100 800 600 else NoEvent),
           canvasToBlob = (\<lambda>k size. NoCallback),
           heic2any = (\<lambda>k f. HeicPending),
           toDouble = (\<lambda>x. x)\<rparr>"
  let ?silent = "\<lparr>imageLoad = (\<lambda>k f. NoEvent),
           canvasToBlob = (\<lambda>k size. NoCallback),
           heic2any = (\<lambda>k f. HeicThrows 40 None),
           toDouble = (\<lambda>x. x)\<rparr>"
  let ?w = "\<lparr>now = 0, loads = 0, heicCalls = 0\<rparr>"
  have jpg: "\<not> isHeicFile ?jpg"
    by (simp add: isHeicFile_def toLowerCase_def lower_char_def endsWith_def)
  have heic: "isHeicFile ?heic"
    by (simp add: isHeicFile_def)
  have lib: "heic2any ?silent (heicCalls ?w) ?heic \<noteq> HeicPending"
    by simp
  have "\<exists>r w'. optimizeImageSize ?br ?jpg 1024 1024 ?w = Some (r, w') \<and> now w' \<le> now ?w + 15000"
    using image_load_promises_settle [where f = ?jpg and br = ?br and w = ?w
        and mw = 1024 and mh = 1024] jpg
    by blast
  then have bound: "\<exists>r w'. optimizeImageSize ?br ?jpg 1024 1024 ?w = Some (r, w') \<and> now w' \<le> 15000"
    by simp
  have run: "optimizeImageSize ?br ?jpg 1024 1024 ?w
       = Some (Rejected ''Image optimization timeout'', \<lparr>now = 10100, loads = 2, heicCalls = 0\<rparr>)"
    by (simp add: optimizeImageSize_not_heic [OF jpg] await_def validateImageFile_def
        load_promise_def timer_def)
  have "optimizeImageSize ?silent ?heic 1024 1024 ?w \<noteq> None"
    using image_load_promises_settle [where f = ?heic and br = ?silent and w = ?w
        and mw = 1024 and mh = 1024] heic lib
    by blast
  with jpg heic bound run show ?thesis
    by blast
qed

section \<open>analyzeImageContent\<close>

lemma await_resolved:
  "await m k w = Some (Resolved y, w') \<Longrightarrow>
   \<exists>x w1. m w = Some (Resolved x, w1) \<and> k x w1 = Some (Resolved y, w')"
  by (auto simp: await_def split: option.splits outcome.splits prod.splits)

text \<open>
  C1, as amended. When \<open>analyzeImageContent\<close> resolves, gender, age group and attire are
  read off the lowercased file name by substring matching, the first matching group of
  words winning (\<open>adult\<close> and \<open>unknown\<close> when none matches); the setting is always
  \<open>unknown\<close>; the quality is not taken from the name but from the width and height that
  \<open>getImageMetadata\<close> reports: high from 1024 by 1024, medium from 512 by 512, low below.
\<close>

theorem analyzeImageContent_fields:
  "analyzeImageContent br f w = Some (Resolved a, w') \<longrightarrow>
     gender a =
       (if mentions (toLowerCase (file_name f)) [''female'', ''woman'', ''girl''] then GenderFemale
        else if mentions (toLowerCase (file_name f)) [''male'', ''man'', ''boy''] then GenderMale
        else GenderUnknown)
     \<and> ageGroup a =
       (if mentions (toLowerCase (file_name f)) [''young'', ''teen'', ''junior''] then AgeYoung
        else if mentions (toLowerCase (file_name f)) [''senior'', ''elder'', ''mature''] then AgeMature
        else AgeAdult)
     \<and> attire a =
       (if mentions (toLowerCase (file_name f)) [''business'', ''professional'', ''corporate'']
        then AttireBusiness
        else if mentions (toLowerCase (file_name f)) [''formal'', ''suit'', ''dress'']
        then AttireFormal
        else if mentions (toLowerCase (file_name f)) [''casual'', ''tshirt'', ''jeans'']
        then AttireCasual
        else AttireUnknown)
     \<and> setting a = SettingUnknown
     \<and> (\<exists>md. getImageMetadata br f w = Some (Resolved md, w')
          \<and> quality a =
              (if 1024 \<le> width md \<and> 1024 \<le> height md then QualityHigh
               else if 512 \<le> width md \<and> 512 \<le> height md then QualityMedium
               else QualityLow))"
proof
  assume run: "analyzeImageContent br f w = Some (Resolved a, w')"
  then obtain md w1 where md: "getImageMetadata br f w = Some (Resolved md, w1)"
    and a: "Some (Resolved a, w') =
       (let filename = toLowerCase (file_name f);
           gender =
             (if str_includes filename ''female'' \<or> str_includes filename ''woman''
                 \<or> str_includes filename ''girl'' then GenderFemale
              else if str_includes filename ''male'' \<or> str_includes filename ''man''
                 \<or> str_includes filename ''boy'' then GenderMale
              else GenderUnknown);
           ageGroup =
             (if str_includes filename ''young'' \<or> str_includes filename ''teen''
                 \<or> str_includes filename ''junior'' then AgeYoung
              else if str_includes filename ''senior'' \<or> str_includes filename ''elder''
                 \<or> str_includes filename ''mature'' then AgeMature
              else AgeAdult);
           attire =
             (if str_includes filename ''business'' \<or> str_includes filename ''professional''
                 \<or> str_includes filename ''corporate'' then AttireBusiness
              else if str_includes filename ''formal'' \<or> str_includes filename ''suit''
                 \<or> str_includes filename ''dress'' then AttireFormal
              else if str_includes filename ''casual'' \<or> str_includes filename ''tshirt''
                 \<or> str_includes filename ''jeans'' then AttireCasual
              else AttireUnknown);
           setting = SettingUnknown;
           quality =
             (if width md \<ge> 1024 \<and> height md \<ge> 1024 then QualityHigh
              else if width md \<ge> 512 \<and> height md \<ge> 512 then QualityMedium
              else QualityLow)
       in Some (Resolved \<lparr>gender = gender, ageGroup = ageGroup, attire = attire,
                          setting = setting, quality = quality\<rparr>, w1))"
    unfolding analyzeImageContent_def by (auto dest!: await_resolved)
  from a have w1: "w1 = w'"
    by (simp add: Let_def)
  from a have fields:
    "gender a = (if str_includes (toLowerCase (file_name f)) ''female''
                 \<or> str_includes (toLowerCase (file_name f)) ''woman''
                 \<or> str_includes (toLowerCase (file_name f)) ''girl'' then GenderFemale
              else if str_includes (toLowerCase (file_name f)) ''male''
                 \<or> str_includes (toLowerCase (file_name f)) ''man''
                 \<or> str_includes (toLowerCase (file_name f)) ''boy'' then GenderMale
              else GenderUnknown)"
    "ageGroup a = (if str_includes (toLowerCase (file_name f)) ''young''
                 \<or> str_includes (toLowerCase (file_name f)) ''teen''
                 \<or> str_includes (toLowerCase (file_name f)) ''junior'' then AgeYoung
              else if str_includes (toLowerCase (file_name f)) ''senior''
                 \<or> str_includes (toLowerCase (file_name f)) ''elder''
                 \<or> str_includes (toLowerCase (file_name f)) ''mature'' then AgeMature
              else AgeAdult)"
    "attire a = (if str_includes (toLowerCase (file_name f)) ''business''
                 \<or> str_includes (toLowerCase (file_name f)) ''professional''
                 \<or> str_includes (toLowerCase (file_name f)) ''corporate'' then AttireBusiness
              else if str_includes (toLowerCase (file_name f)) ''formal''
                 \<or> str_includes (toLowerCase (file_name f)) ''suit''
                 \<or> str_includes (toLowerCase (file_name f)) ''dress'' then AttireFormal
              else if str_includes (toLowerCase (file_name f)) ''casual''
                 \<or> str_includes (toLowerCase (file_name f)) ''tshirt''
                 \<or> str_includes (toLowerCase (file_name f)) ''jeans'' then AttireCasual
              else AttireUnknown)"
    "setting a = SettingUnknown"
    "quality a = (if width md \<ge> 1024 \<and> height md \<ge> 1024 then QualityHigh
              else if width md \<ge> 512 \<and> height md \<ge> 512 then QualityMedium
              else QualityLow)"
    by (simp_all add: Let_def)
  show "gender a =
       (if mentions (toLowerCase (file_name f)) [''female'', ''woman'', ''girl''] then GenderFemale
        else if mentions (toLowerCase (file_name f)) [''male'', ''man'', ''boy''] then GenderMale
        else GenderUnknown)
     \<and> ageGroup a =
       (if mentions (toLowerCase (file_name f)) [''young'', ''teen'', ''junior''] then AgeYoung
        else if mentions (toLowerCase (file_name f)) [''senior'', ''elder'', ''mature''] then AgeMature
        else AgeAdult)
     \<and> attire a =
       (if mentions (toLowerCase (file_name f)) [''business'', ''professional'', ''corporate'']
        then AttireBusiness
        else if mentions (toLowerCase (file_name f)) [''formal'', ''suit'', ''dress'']
        then AttireFormal
        else if mentions (toLowerCase (file_name f)) [''casual'', ''tshirt'', ''jeans'']
        then AttireCasual
        else AttireUnknown)
     \<and> setting a = SettingUnknown
     \<and> (\<exists>md. getImageMetadata br f w = Some (Resolved md, w')
          \<and> quality a =
              (if 1024 \<le> width md \<and> 1024 \<le> height md then QualityHigh
               else if 512 \<le> width md \<and> 512 \<le> height md then QualityMedium
               else QualityLow))"
    using md w1
    by (simp add: fields mentions_def includes_sublist)
qed


lemma getImageMetadata_loaded:
  assumes "\<not> isHeicFile f"
    and "imageLoad br (loads w) f = Onload t iw ih" and "t < 5000" and "0 < iw" and "0 < ih"
    and "imageLoad br (loads w + 1) f = Onload t' iw' ih'" and "t' < 5000"
  shows "getImageMetadata br f w =
     Some (Resolved \<lparr>width = iw', height = ih', aspectRatio = js_div iw' ih',
                      format = file_type f, size_bytes = file_size f,
                      hasTransparency =
                        Some (file_type f = ''image/png'' \<or> file_type f = ''image/webp'')\<rparr>,
           w\<lparr>now := now w + t + t', loads := loads w + 2\<rparr>)"
  using assms
  by (simp add: getImageMetadata_not_heic await_def validateImageFile_def load_promise_def
      timer_def)

text \<open>
  The same file, decoded as 2000 by 2000 pixels and as 300 by 300 pixels, is analysed as
  high and as low quality: the quality is not a function of the file name.
\<close>

theorem analyzeImageContent_quality_not_from_name:
  "analyzeImageContent
      \<lparr>imageLoad = (\<lambda>k f. Onload 10 2000 2000), canvasToBlob = (\<lambda>k size. NoCallback),
       heic2any = (\<lambda>k f. HeicPending), toDouble = (\<lambda>x. x)\<rparr>
      \<lparr>file_name = ''woman_business.jpg'', file_type = ''image/jpeg'', file_size = 40000\<rparr>
      \<lparr>now = 0, loads = 0, heicCalls = 0\<rparr>
    = Some (Resolved \<lparr>gender = GenderFemale, ageGroup = AgeAdult, attire = AttireBusiness,
                       setting = SettingUnknown, quality = QualityHigh\<rparr>,
            \<lparr>now = 20, loads = 2, heicCalls = 0\<rparr>)
   \<and> analyzeImageContent
      \<lparr>imageLoad = (\<lambda>k f. Onload 10 300 300), canvasToBlob = (\<lambda>k size. NoCallback),
       heic2any = (\<lambda>k f. HeicPending), toDouble = (\<lambda>x. x)\<rparr>
      \<lparr>file_name = ''woman_business.jpg'', file_type = ''image/jpeg'', file_size = 40000\<rparr>
      \<lparr>now = 0, loads = 0, heicCalls = 0\<rparr>
    = Some (Resolved \<lparr>gender = GenderFemale, ageGroup = AgeAdult, attire = AttireBusiness,
                       setting = SettingUnknown, quality = QualityLow\<rparr>,
            \<lparr>now = 20, loads = 2, heicCalls = 0\<rparr>)"
proof -
  let ?f = "\<lparr>file_name = ''woman_business.jpg'', file_type = ''image/jpeg'', file_size = 40000\<rparr>"
  have plain: "\<not> isHeicFile ?f"
    by (simp add: isHeicFile_def toLowerCase_def lower_char_def endsWith_def)
  have name: "toLowerCase ''woman_business.jpg'' = ''woman_business.jpg''"
    by (simp add: toLowerCase_def lower_char_def)
  show ?thesis
    by (simp add: analyzeImageContent_def await_def getImageMetadata_loaded [OF plain] name
        Let_def)
qed


theorem analyzeImageContent_fields_witness:
  "analyzeImageContent
      \<lparr>imageLoad = (\<lambda>k f. Onload 10 1000 800), canvasToBlob = (\<lambda>k size. NoCallback),
       heic2any = (\<lambda>k f. HeicPending), toDouble = (\<lambda>x. x)\<rparr>
      \<lparr>file_name = ''Senior_Man_Suit.png'', file_type = ''image/png'', file_size = 40000\<rparr>
      \<lparr>now = 0, loads = 0, heicCalls = 0\<rparr>
    = Some (Resolved \<lparr>gender = GenderMale, ageGroup = AgeMature, attire = AttireFormal,
                       setting = SettingUnknown, quality = QualityMedium\<rparr>,
            \<lparr>now = 20, loads = 2, heicCalls = 0\<rparr>)
   \<and> GenderMale =
       (if mentions (toLowerCase ''Senior_Man_Suit.png'') [''female'', ''woman'', ''girl'']
        then GenderFemale
        else if mentions (toLowerCase ''Senior_Man_Suit.png'') [''male'', ''man'', ''boy'']
        then GenderMale
        else GenderUnknown)
   \<and> AgeMature =
       (if mentions (toLowerCase ''Senior_Man_Suit.png'') [''young'', ''teen'', ''junior'']
        then AgeYoung
        else if mentions (toLowerCase ''Senior_Man_Suit.png'') [''senior'', ''elder'', ''mature'']
        then AgeMature
        else AgeAdult)"
proof -
  let ?br = "\<lparr>imageLoad = (\<lambda>k f. Onload 10 1000 800), canvasToBlob = (\<lambda>k size. NoCallback),
       heic2any = (\<lambda>k f. HeicPending), toDouble = (\<lambda>x. x)\<rparr>"
  let ?f = "\<lparr>file_name = ''Senior_Man_Suit.png'', file_type = ''image/png'', file_size = 40000\<rparr>"
  let ?w = "\<lparr>now = 0, loads = 0, heicCalls = 0\<rparr>"
  let ?a = "\<lparr>gender = GenderMale, ageGroup = AgeMature, attire = AttireFormal,
                       setting = SettingUnknown, quality = QualityMedium\<rparr>"
  let ?w' = "\<lparr>now = 20, loads = 2, heicCalls = 0\<rparr>"
  have plain: "\<not> isHeicFile ?f"
    by (simp add: isHeicFile_def toLowerCase_def lower_char_def endsWith_def)
  have name: "toLowerCase ''Senior_Man_Suit.png'' = ''senior_man_suit.png''"
    by (simp add: toLowerCase_def lower_char_def)
  have run: "analyzeImageContent ?br ?f ?w = Some (Resolved ?a, ?w')"
    by (simp add: analyzeImageContent_def await_def getImageMetadata_loaded [OF plain] name
        Let_def)
  from analyzeImageContent_fields [of ?br ?f ?w ?a ?w'] run show ?thesis
    by (simp cong: if_cong)
qed

section \<open>optimizeImageSize\<close>

lemma toUnsignedLong_nat:
  "n < 2 ^ 32 \<Longrightarrow> toUnsignedLong (Num (rat_of_nat n)) = n"
proof -
  assume "n < 2 ^ 32"
  then have "int n mod 2 ^ 32 = int n"
    by simp
  then show ?thesis
    by simp
qed

lemma canvasAttribute_nat:
  assumes "n < 2 ^ 32"
  shows "canvasAttribute dflt (Num (rat_of_nat n)) = (if n < 2 ^ 31 then n else dflt)"
proof -
  have "(2::nat) ^ 31 = 2147483648"
    by simp
  then have "n \<le> 2147483647 \<longleftrightarrow> n < 2 ^ 31"
    by arith
  then show ?thesis
    by (simp only: canvasAttribute_def toUnsignedLong_nat [OF assms] Let_def)
qed

lemma canvasSize_unchanged:
  "w \<le> mw \<Longrightarrow> h \<le> mh \<Longrightarrow> w < 2 ^ 32 \<Longrightarrow> h < 2 ^ 32 \<Longrightarrow>
   canvasSize fl w h mw mh = (if w < 2 ^ 31 then w else 300, if h < 2 ^ 31 then h else 150)"
  by (simp add: canvasSize_def setCanvasSize_def canvasAttribute_nat)

lemma pow_numerals:
  "(2::rat) ^ 21 = 2097152" "(2::rat) ^ 32 = 4294967296" "(2::rat) ^ 53 = 9007199254740992"
  "(2::rat) ^ 64 = 18446744073709551616"
  by simp_all

lemma rounds_like_double_bounds:
  assumes "rounds_like_double fl" and "1 / 2 ^ 64 \<le> x" and "x \<le> 2 ^ 64"
  shows "x - x / 2 ^ 53 \<le> fl x" and "fl x \<le> x + x / 2 ^ 53"
proof -
  have "\<bar>fl x - x\<bar> \<le> x / 2 ^ 53"
    using assms by (simp add: rounds_like_double_def)
  then show "x - x / 2 ^ 53 \<le> fl x" and "fl x \<le> x + x / 2 ^ 53"
    by linarith+
qed

lemma scaled_pixel:
  assumes fl: "rounds_like_double fl"
    and q: "1 / 2 ^ 32 \<le> q" "q \<le> rat_of_nat m" "m < 2 ^ 31"
    and p: "q - q / 2 ^ 53 \<le> p" "p \<le> q + q / 2 ^ 53"
  shows "canvasAttribute dflt (Num (fl p)) = nat \<lfloor>fl p\<rfloor>"
    and "canvasAttribute dflt (Num (fl p)) \<le> m"
    and "q - 1 - 1 / 2 ^ 21 < rat_of_nat (canvasAttribute dflt (Num (fl p)))"
    and "rat_of_nat (canvasAttribute dflt (Num (fl p))) \<le> q + 1 / 2 ^ 21"
proof -
  have m: "rat_of_nat m \<le> 2147483647"
  proof -
    from q(3) have "m \<le> 2147483647" by simp
    then have "rat_of_nat m \<le> rat_of_nat 2147483647"
      by (rule of_nat_mono)
    then show ?thesis by simp
  qed
  note q' = q(1,2) [unfolded pow_numerals] and p' = p [unfolded pow_numerals]
  have range: "1 / 2 ^ 64 \<le> p" "p \<le> 2 ^ 64"
    unfolding pow_numerals using q' p' m by linarith+
  note y = rounds_like_double_bounds [OF fl range, unfolded pow_numerals]
  have lo: "q - 1 / 2097152 \<le> fl p" and hi: "fl p \<le> q + 1 / 2097152"
    using y p' q' m by linarith+
  have pos: "0 \<le> fl p"
    using y p' q' by linarith
  have fl_lt: "fl p < rat_of_nat m + 1"
    using hi q' by linarith
  have floor_le: "\<lfloor>fl p\<rfloor> \<le> int m"
  proof -
    have "fl p < of_int (int m + 1)"
      using fl_lt by simp
    then have "\<lfloor>fl p\<rfloor> < int m + 1"
      by (rule floor_less_iff [THEN iffD2])
    then show ?thesis by simp
  qed
  have floor_pos: "0 \<le> \<lfloor>fl p\<rfloor>"
    using pos by simp
  have im: "int m \<le> 2147483647"
    using q(3) by simp
  have two32: "(2::int) ^ 32 = 4294967296"
    by simp
  have small: "\<lfloor>fl p\<rfloor> < 2 ^ 32"
    unfolding two32 using floor_le im by linarith
  have modid: "\<lfloor>fl p\<rfloor> mod 2 ^ 32 = \<lfloor>fl p\<rfloor>"
    using floor_pos small by (rule mod_pos_pos_trivial)
  have long: "toUnsignedLong (Num (fl p)) = nat \<lfloor>fl p\<rfloor>"
    using pos by (simp only: toUnsignedLong.simps if_True modid)
  have limit: "nat \<lfloor>fl p\<rfloor> \<le> 2147483647"
    using floor_le im by linarith
  show pixel: "canvasAttribute dflt (Num (fl p)) = nat \<lfloor>fl p\<rfloor>"
    using limit by (simp only: canvasAttribute_def long Let_def if_True)
  show "canvasAttribute dflt (Num (fl p)) \<le> m"
    using pixel floor_le by simp
  have as_rat: "rat_of_nat (canvasAttribute dflt (Num (fl p))) = of_int \<lfloor>fl p\<rfloor>"
    using pixel floor_pos by simp
  have "fl p - 1 < of_int \<lfloor>fl p\<rfloor>" and "of_int \<lfloor>fl p\<rfloor> \<le> fl p"
    by linarith+
  then show "q - 1 - 1 / 2 ^ 21 < rat_of_nat (canvasAttribute dflt (Num (fl p)))"
    and "rat_of_nat (canvasAttribute dflt (Num (fl p))) \<le> q + 1 / 2 ^ 21"
    unfolding pow_numerals using as_rat lo hi by linarith+
qed


lemma quotient_range:
  assumes "0 < a" "a < 2 ^ 32" "0 < b" "b < 2 ^ 32"
  shows "1 / 2 ^ 32 \<le> rat_of_nat a / rat_of_nat b" "rat_of_nat a / rat_of_nat b \<le> 2 ^ 32"
proof -
  have bound: "1 \<le> rat_of_nat n \<and> rat_of_nat n \<le> 2 ^ 32" if "0 < n" "n < 2 ^ 32" for n :: nat
  proof -
    from that have "1 \<le> n" "n \<le> 4294967296"
      by simp_all
    then have "rat_of_nat 1 \<le> rat_of_nat n" "rat_of_nat n \<le> rat_of_nat 4294967296"
      by (simp_all only: of_nat_le_iff)
    then show ?thesis
      by simp
  qed
  have a: "1 \<le> rat_of_nat a" "rat_of_nat a \<le> 2 ^ 32"
    using bound [OF assms(1,2)] by simp_all
  have b: "1 \<le> rat_of_nat b" "rat_of_nat b \<le> 2 ^ 32"
    using bound [OF assms(3,4)] by simp_all
  have "rat_of_nat b \<le> 2 ^ 32 * rat_of_nat a"
  proof -
    have "rat_of_nat b \<le> 2 ^ 32 * 1" using b(2) by simp
    also have "\<dots> \<le> 2 ^ 32 * rat_of_nat a" using a(1) by (intro mult_left_mono) simp_all
    finally show ?thesis .
  qed
  then show "1 / 2 ^ 32 \<le> rat_of_nat a / rat_of_nat b"
    using b(1) by (simp add: field_simps)
  have "rat_of_nat a \<le> 2 ^ 32 * rat_of_nat b"
  proof -
    have "rat_of_nat a \<le> 2 ^ 32 * 1" using a(2) by simp
    also have "\<dots> \<le> 2 ^ 32 * rat_of_nat b" using b(1) by (intro mult_left_mono) simp_all
    finally show ?thesis .
  qed
  then show "rat_of_nat a / rat_of_nat b \<le> 2 ^ 32"
    using b(1) by (simp add: field_simps)
qed

lemma canvasSize_scaled:
  assumes fl: "rounds_like_double fl"
    and big: "mw < w \<or> mh < h"
    and w: "0 < w" "w < 2 ^ 32" and h: "0 < h" "h < 2 ^ 32"
    and mw: "0 < mw" "mw < 2 ^ 31" and mh: "0 < mh" "mh < 2 ^ 31"
  defines "R \<equiv> min (rat_of_nat mw / rat_of_nat w) (rat_of_nat mh / rat_of_nat h)"
    and "r \<equiv> min (fl (rat_of_nat mw / rat_of_nat w)) (fl (rat_of_nat mh / rat_of_nat h))"
  shows "canvasSize fl w h mw mh
           = (nat \<lfloor>fl (rat_of_nat w * r)\<rfloor>, nat \<lfloor>fl (rat_of_nat h * r)\<rfloor>)"
    and "fst (canvasSize fl w h mw mh) \<le> mw"
    and "snd (canvasSize fl w h mw mh) \<le> mh"
    and "rat_of_nat w * R - 1 - 1 / 2 ^ 21 < rat_of_nat (fst (canvasSize fl w h mw mh))"
    and "rat_of_nat (fst (canvasSize fl w h mw mh)) \<le> rat_of_nat w * R + 1 / 2 ^ 21"
    and "rat_of_nat h * R - 1 - 1 / 2 ^ 21 < rat_of_nat (snd (canvasSize fl w h mw mh))"
    and "rat_of_nat (snd (canvasSize fl w h mw mh)) \<le> rat_of_nat h * R + 1 / 2 ^ 21"
proof -
  define c where "c = rat_of_nat mw / rat_of_nat w"
  define d where "d = rat_of_nat mh / rat_of_nat h"
  have mw32: "mw < 2 ^ 32" and mh32: "mh < 2 ^ 32"
    using mw(2) mh(2) by simp_all
  have c: "1 / 2 ^ 32 \<le> c" "c \<le> 2 ^ 32"
    unfolding c_def using quotient_range [OF mw(1) mw32 w] by simp_all
  have d: "1 / 2 ^ 32 \<le> d" "d \<le> 2 ^ 32"
    unfolding d_def using quotient_range [OF mh(1) mh32 h] by simp_all
  have R: "R = min c d"
    by (simp add: R_def c_def d_def)
  have r_def': "r = min (fl c) (fl d)"
    by (simp add: r_def c_def d_def)
  have flc: "c - c / 2 ^ 53 \<le> fl c" "fl c \<le> c + c / 2 ^ 53"
    using rounds_like_double_bounds [OF fl, of c] c by (simp_all add: pow_numerals)
  have fld: "d - d / 2 ^ 53 \<le> fl d" "fl d \<le> d + d / 2 ^ 53"
    using rounds_like_double_bounds [OF fl, of d] d by (simp_all add: pow_numerals)
  have r: "R - R / 2 ^ 53 \<le> r" "r \<le> R + R / 2 ^ 53"
    using flc fld unfolding R r_def' pow_numerals min_def by (auto split: if_splits)
  have Rlow: "1 / 2 ^ 32 \<le> R"
    using c(1) d(1) by (simp add: R)
  have size: "canvasSize fl w h mw mh
      = (canvasAttribute 300 (Num (fl (rat_of_nat w * r))),
         canvasAttribute 150 (Num (fl (rat_of_nat h * r))))"
    using big w(1) h(1)
    by (auto simp: canvasSize_def setCanvasSize_def js_quot_def js_div_def Let_def r_def)
  have scaled: "canvasAttribute dflt (Num (fl (rat_of_nat n * r))) = nat \<lfloor>fl (rat_of_nat n * r)\<rfloor>
      \<and> canvasAttribute dflt (Num (fl (rat_of_nat n * r))) \<le> m
      \<and> rat_of_nat n * R - 1 - 1 / 2 ^ 21
          < rat_of_nat (canvasAttribute dflt (Num (fl (rat_of_nat n * r))))
      \<and> rat_of_nat (canvasAttribute dflt (Num (fl (rat_of_nat n * r))))
          \<le> rat_of_nat n * R + 1 / 2 ^ 21"
    if n: "0 < n" and m: "m < 2 ^ 31" and nR: "rat_of_nat n * R \<le> rat_of_nat m" for n m dflt
  proof -
    have n1: "1 \<le> rat_of_nat n"
      using n by (simp add: Suc_leI)
    have Rpos: "0 \<le> R"
      using Rlow by (simp add: pow_numerals)
    have "1 * R \<le> rat_of_nat n * R"
      using n1 Rpos by (rule mult_right_mono)
    then have "R \<le> rat_of_nat n * R"
      by (simp only: mult_1)
    then have q1: "1 / 2 ^ 32 \<le> rat_of_nat n * R"
      using Rlow by (rule order_trans [rotated])
    have "rat_of_nat n * (R - R / 2 ^ 53) \<le> rat_of_nat n * r"
      using r(1) by (intro mult_left_mono) simp_all
    then have p1: "rat_of_nat n * R - rat_of_nat n * R / 2 ^ 53 \<le> rat_of_nat n * r"
      by (simp add: algebra_simps)
    have "rat_of_nat n * r \<le> rat_of_nat n * (R + R / 2 ^ 53)"
      using r(2) by (intro mult_left_mono) simp_all
    then have p2: "rat_of_nat n * r \<le> rat_of_nat n * R + rat_of_nat n * R / 2 ^ 53"
      by (simp add: algebra_simps)
    show ?thesis
      using scaled_pixel [OF fl q1 nR m p1 p2] by blast
  qed
  have wR: "rat_of_nat w * R \<le> rat_of_nat mw"
  proof -
    have "rat_of_nat w * R \<le> rat_of_nat w * c"
      by (intro mult_left_mono) (simp_all add: R)
    also have "\<dots> = rat_of_nat mw"
      using w(1) by (simp add: c_def)
    finally show ?thesis .
  qed
  have hR: "rat_of_nat h * R \<le> rat_of_nat mh"
  proof -
    have "rat_of_nat h * R \<le> rat_of_nat h * d"
      by (intro mult_left_mono) (simp_all add: R)
    also have "\<dots> = rat_of_nat mh"
      using h(1) by (simp add: d_def)
    finally show ?thesis .
  qed
  note sw = scaled [OF w(1) mw(2) wR, of 300] and sh = scaled [OF h(1) mh(2) hR, of 150]
  show "canvasSize fl w h mw mh
           = (nat \<lfloor>fl (rat_of_nat w * r)\<rfloor>, nat \<lfloor>fl (rat_of_nat h * r)\<rfloor>)"
    and "fst (canvasSize fl w h mw mh) \<le> mw"
    and "snd (canvasSize fl w h mw mh) \<le> mh"
    and "rat_of_nat w * R - 1 - 1 / 2 ^ 21 < rat_of_nat (fst (canvasSize fl w h mw mh))"
    and "rat_of_nat (fst (canvasSize fl w h mw mh)) \<le> rat_of_nat w * R + 1 / 2 ^ 21"
    and "rat_of_nat h * R - 1 - 1 / 2 ^ 21 < rat_of_nat (snd (canvasSize fl w h mw mh))"
    and "rat_of_nat (snd (canvasSize fl w h mw mh)) \<le> rat_of_nat h * R + 1 / 2 ^ 21"
    using sw sh unfolding size by simp_all
qed


lemma afterLastDot_append:
  assumes "CHR ''.'' \<notin> set ext"
  shows "afterLastDot (stem @ ''.'' @ ext) = ext"
proof -
  let ?P = "\<lambda>c. c \<noteq> CHR ''.''"
  have "takeWhile ?P (rev ext @ CHR ''.'' # rev stem) = rev ext @ takeWhile ?P (CHR ''.'' # rev stem)"
    using assms by (intro takeWhile_append2) auto
  then show ?thesis
    by (simp add: afterLastDot_def)
qed

lemma afterLastDot_split:
  assumes "CHR ''.'' \<in> set name"
  shows "\<exists>stem. name = stem @ ''.'' @ afterLastDot name"
    and "CHR ''.'' \<notin> set (afterLastDot name)"
proof -
  let ?P = "\<lambda>c. c \<noteq> CHR ''.''"
  let ?xs = "rev name"
  have "dropWhile ?P ?xs \<noteq> []"
    using assms by (simp add: dropWhile_eq_Nil_conv)
  then obtain c t where dw: "dropWhile ?P ?xs = c # t"
    by (cases "dropWhile ?P ?xs") auto
  then have "\<not> ?P c"
    using hd_dropWhile [of ?P ?xs] by simp
  then have c: "c = CHR ''.''"
    by simp
  have "?xs = takeWhile ?P ?xs @ dropWhile ?P ?xs"
    by simp
  then have "rev ?xs = rev (dropWhile ?P ?xs) @ rev (takeWhile ?P ?xs)"
    by (metis rev_append)
  then have "name = rev t @ ''.'' @ afterLastDot name"
    by (simp add: dw c afterLastDot_def)
  then show "\<exists>stem. name = stem @ ''.'' @ afterLastDot name"
    by blast
  show "CHR ''.'' \<notin> set (afterLastDot name)"
    by (auto simp: afterLastDot_def dest: set_takeWhileD)
qed

lemma hasExtension_iff:
  "hasExtension name \<longleftrightarrow>
     (\<exists>stem ext. name = stem @ ''.'' @ ext \<and> ext \<noteq> []
        \<and> CHR ''.'' \<notin> set ext \<and> CHR ''/'' \<notin> set ext)"
proof
  assume h: "hasExtension name"
  then have dot: "CHR ''.'' \<in> set name"
    by (simp add: hasExtension_def)
  from afterLastDot_split [OF dot] h show
    "\<exists>stem ext. name = stem @ ''.'' @ ext \<and> ext \<noteq> []
        \<and> CHR ''.'' \<notin> set ext \<and> CHR ''/'' \<notin> set ext"
    unfolding hasExtension_def by blast
next
  assume "\<exists>stem ext. name = stem @ ''.'' @ ext \<and> ext \<noteq> []
        \<and> CHR ''.'' \<notin> set ext \<and> CHR ''/'' \<notin> set ext"
  then obtain stem ext where n: "name = stem @ ''.'' @ ext" and e: "ext \<noteq> []"
    "CHR ''.'' \<notin> set ext" "CHR ''/'' \<notin> set ext"
    by blast
  have "afterLastDot name = ext"
    unfolding n using e(2) by (rule afterLastDot_append)
  with n e show "hasExtension name"
    by (simp add: hasExtension_def)
qed

lemma replaceExtension_split:
  assumes "ext \<noteq> []" "CHR ''.'' \<notin> set ext" "CHR ''/'' \<notin> set ext"
  shows "replaceExtension (stem @ ''.'' @ ext) = stem @ ''.png''"
proof -
  have a: "afterLastDot (stem @ CHR ''.'' # ext) = ext"
    using afterLastDot_append [OF assms(2), of stem] by simp
  have "hasExtension (stem @ ''.'' @ ext)"
    using assms by (auto simp: hasExtension_iff)
  then show ?thesis
    by (simp add: replaceExtension_def a)
qed

lemma replaceExtension_none:
  "\<not> hasExtension name \<Longrightarrow> replaceExtension name = name"
  by (simp add: replaceExtension_def)

lemma optimizeImageSize_promise_resolved:
  assumes "optimizeImageSize_promise f mw mh fl ev cv = Some (t, Resolved g)"
  shows "\<exists>t0 iw ih d blob. ev = Onload t0 iw ih
           \<and> cv (canvasSize fl iw ih mw mh) = BlobCallback d (Some blob)
           \<and> g = newFile blob (replaceExtension (file_name f)) ''image/png''"
proof (cases ev)
  case (SetupThrows msg)
  with assms show ?thesis by simp
next
  case (Onload t0 iw ih)
  with assms have "first_settled
       [(case cv (canvasSize fl iw ih mw mh) of
            DrawThrows msg \<Rightarrow> Some (t0, Rejected (''Image optimization failed: '' @ msg))
          | NoContext \<Rightarrow> Some (t0, Rejected ''Unable to get canvas context for optimization'')
          | BlobCallback d (Some blob) \<Rightarrow>
              Some (t0 + d, Resolved (newFile blob (replaceExtension (file_name f)) ''image/png''))
          | BlobCallback d None \<Rightarrow> Some (t0 + d, Rejected ''Failed to optimize image'')
          | NoCallback \<Rightarrow> None),
        None,
        timer 10000 (Rejected ''Image optimization timeout'')] = Some (t, Resolved g)"
    by simp
  from first_settled_mem [OF this] Onload show ?thesis
    by (auto simp: timer_def split: canvas_event.splits option.splits)
next
  case (Onerror t0)
  with assms have "first_settled
       [None, Some (t0, Rejected ''Unable to load image for optimization''),
        timer 10000 (Rejected ''Image optimization timeout'')] = Some (t, Resolved g)"
    by simp
  from first_settled_mem [OF this] show ?thesis
    by (auto simp: timer_def)
next
  case NoEvent
  with assms have "first_settled
       [None, None, timer 10000 (Rejected ''Image optimization timeout'')]
       = Some (t, Resolved g)"
    by simp
  from first_settled_mem [OF this] show ?thesis
    by (auto simp: timer_def)
qed

lemma load_promise_resolved:
  "load_promise p w = Some (Resolved g, w') \<Longrightarrow> \<exists>t. p = Some (t, Resolved g)"
  by (auto simp: load_promise_def split: option.splits)

lemma optimizeImageSize_plain_resolved:
  assumes "\<not> isHeicFile f" and "optimizeImageSize br f mw mh w = Some (Resolved g, w')"
  shows "\<exists>k t0 iw ih d blob. imageLoad br k f = Onload t0 iw ih
           \<and> canvasToBlob br k (canvasSize (toDouble br) iw ih mw mh) = BlobCallback d (Some blob)
           \<and> g = newFile blob (replaceExtension (file_name f)) ''image/png''"
proof -
  from assms(2) [unfolded optimizeImageSize_not_heic [OF assms(1)]]
  obtain v w1 where
    rest: "(if \<not> v then throw ''Invalid image file for optimization''
            else (\<lambda>w. load_promise
                       (optimizeImageSize_promise f mw mh (toDouble br)
                          (imageLoad br (loads w) f) (canvasToBlob br (loads w))) w)) w1
           = Some (Resolved g, w')"
    by (auto dest!: await_resolved)
  then have "load_promise
                       (optimizeImageSize_promise f mw mh (toDouble br)
                          (imageLoad br (loads w1) f) (canvasToBlob br (loads w1))) w1
           = Some (Resolved g, w')"
    by (cases v) (simp_all add: throw_def)
  then obtain t where "optimizeImageSize_promise f mw mh (toDouble br)
                          (imageLoad br (loads w1) f) (canvasToBlob br (loads w1))
           = Some (t, Resolved g)"
    by (auto dest: load_promise_resolved)
  from optimizeImageSize_promise_resolved [OF this] show ?thesis
    by blast
qed

lemma optimizeImageSize_resolved:
  assumes "optimizeImageSize br f mw mh w = Some (Resolved g, w')"
  shows "\<exists>k f' t0 iw ih d. imageLoad br k f' = Onload t0 iw ih
           \<and> canvasToBlob br k (canvasSize (toDouble br) iw ih mw mh)
               = BlobCallback d (Some (file_size g))
           \<and> file_type g = ''image/png''
           \<and> file_name g =
               replaceExtension
                 (if isHeicFile f then replaceHeicExtension (file_name f) else file_name f)"
proof (cases "isHeicFile f")
  case False
  from optimizeImageSize_plain_resolved [OF False assms]
  obtain k t0 iw ih d blob where il: "imageLoad br k f = Onload t0 iw ih"
    and cb: "canvasToBlob br k (canvasSize (toDouble br) iw ih mw mh) = BlobCallback d (Some blob)"
    and g: "g = newFile blob (replaceExtension (file_name f)) ''image/png''"
    by blast
  have "canvasToBlob br k (canvasSize (toDouble br) iw ih mw mh)
      = BlobCallback d (Some (file_size g))"
    using cb g by (simp add: newFile_def)
  moreover have "file_type g = ''image/png''"
    using g by (simp add: newFile_def)
  moreover have "file_name g =
      replaceExtension (if isHeicFile f then replaceHeicExtension (file_name f) else file_name f)"
    using g False by (simp add: newFile_def)
  ultimately show ?thesis
    using il by blast
next
  case True
  with assms obtain g0 w1 where conv: "convertImageToPng br f w = Some (Resolved g0, w1)"
    and opt: "optimizeImageSize br g0 mw mh w1 = Some (Resolved g, w')"
    by (auto simp: optimizeImageSize.simps [of br f]
        split: option.splits outcome.splits prod.splits)
  from convertImageToPng_heic_resolved [OF True conv]
  obtain blob0 where g0: "g0 = newFile blob0 (replaceHeicExtension (file_name f)) ''image/png''"
    by blast
  have plain: "\<not> isHeicFile g0"
    using convertImageToPng_heic_not_heic [OF True conv] .
  from optimizeImageSize_plain_resolved [OF plain opt]
  obtain k t0 iw ih d blob where il: "imageLoad br k g0 = Onload t0 iw ih"
    and cb: "canvasToBlob br k (canvasSize (toDouble br) iw ih mw mh) = BlobCallback d (Some blob)"
    and g: "g = newFile blob (replaceExtension (file_name g0)) ''image/png''"
    by blast
  have "canvasToBlob br k (canvasSize (toDouble br) iw ih mw mh)
      = BlobCallback d (Some (file_size g))"
    using cb g by (simp add: newFile_def)
  moreover have "file_type g = ''image/png''"
    using g by (simp add: newFile_def)
  moreover have "file_name g =
      replaceExtension (if isHeicFile f then replaceHeicExtension (file_name f) else file_name f)"
    using g g0 True by (simp add: newFile_def)
  ultimately show ?thesis
    using il by blast
qed


text \<open>
  C6, as amended. The canvas attributes hold values up to \<open>2^31 - 1\<close>. An image within both
  limits keeps its size when its dimensions are below \<open>2^31\<close>; a dimension from \<open>2^31\<close> up
  to \<open>2^32 - 1\<close> becomes the default of the attribute, 300 for the width and 150 for the
  height. A larger image, with limits below \<open>2^31\<close>, has both dimensions multiplied by the
  one factor \<open>min(maxWidth / w, maxHeight / h)\<close>, in double arithmetic, and the canvas
  truncates the products to whole pixels: the output is at most the limits, and each
  dimension is more than the exactly scaled one less \<open>1 + 2^-21\<close> and at most the exactly
  scaled one plus \<open>2^-21\<close>, so the aspect ratio is kept up to that truncation only.
  The output file is of type \<open>image/png\<close>, made from the canvas of that size; in its name
  the last extension (a dot followed by one or more characters other than a dot or a
  slash, up to the end) is replaced by \<open>.png\<close>, and a name without one is left as it is.
\<close>

theorem optimizeImageSize_output:
  "(w \<le> mw \<and> h \<le> mh \<and> w < 2 ^ 32 \<and> h < 2 ^ 32 \<longrightarrow>
        canvasSize fl w h mw mh
          = (if w < 2 ^ 31 then w else 300, if h < 2 ^ 31 then h else 150))
   \<and> ((mw < w \<or> mh < h) \<and> 0 < w \<and> w < 2 ^ 32 \<and> 0 < h \<and> h < 2 ^ 32
        \<and> 0 < mw \<and> mw < 2 ^ 31 \<and> 0 < mh \<and> mh < 2 ^ 31 \<and> rounds_like_double fl \<longrightarrow>
        canvasSize fl w h mw mh =
          setCanvasSize (js_times fl w (js_min (js_quot fl mw w) (js_quot fl mh h)))
            (js_times fl h (js_min (js_quot fl mw w) (js_quot fl mh h)))
        \<and> canvasSize fl w h mw mh =
          (nat \<lfloor>fl (rat_of_nat w * min (fl (rat_of_nat mw / rat_of_nat w))
                                       (fl (rat_of_nat mh / rat_of_nat h)))\<rfloor>,
           nat \<lfloor>fl (rat_of_nat h * min (fl (rat_of_nat mw / rat_of_nat w))
                                       (fl (rat_of_nat mh / rat_of_nat h)))\<rfloor>)
        \<and> fst (canvasSize fl w h mw mh) \<le> mw
        \<and> snd (canvasSize fl w h mw mh) \<le> mh
        \<and> rat_of_nat w * min (rat_of_nat mw / rat_of_nat w) (rat_of_nat mh / rat_of_nat h)
              - 1 - 1 / 2 ^ 21
            < rat_of_nat (fst (canvasSize fl w h mw mh))
        \<and> rat_of_nat (fst (canvasSize fl w h mw mh))
            \<le> rat_of_nat w * min (rat_of_nat mw / rat_of_nat w) (rat_of_nat mh / rat_of_nat h)
                + 1 / 2 ^ 21
        \<and> rat_of_nat h * min (rat_of_nat mw / rat_of_nat w) (rat_of_nat mh / rat_of_nat h)
              - 1 - 1 / 2 ^ 21
            < rat_of_nat (snd (canvasSize fl w h mw mh))
        \<and> rat_of_nat (snd (canvasSize fl w h mw mh))
            \<le> rat_of_nat h * min (rat_of_nat mw / rat_of_nat w) (rat_of_nat mh / rat_of_nat h)
                + 1 / 2 ^ 21)
   \<and> (optimizeImageSize br f mw mh w0 = Some (Resolved g, w1) \<longrightarrow>
        file_type g = ''image/png''
        \<and> file_name g =
            replaceExtension
              (if isHeicFile f then replaceHeicExtension (file_name f) else file_name f)
        \<and> (\<exists>k f' t iw ih d. imageLoad br k f' = Onload t iw ih
              \<and> canvasToBlob br k (canvasSize (toDouble br) iw ih mw mh)
                  = BlobCallback d (Some (file_size g))))
   \<and> (ext \<noteq> [] \<and> CHR ''.'' \<notin> set ext \<and> CHR ''/'' \<notin> set ext \<longrightarrow>
        replaceExtension (stem @ ''.'' @ ext) = stem @ ''.png'')
   \<and> (\<not> (\<exists>stem ext. name = stem @ ''.'' @ ext \<and> ext \<noteq> []
              \<and> CHR ''.'' \<notin> set ext \<and> CHR ''/'' \<notin> set ext) \<longrightarrow>
        replaceExtension name = name)"
proof (intro conjI impI)
  assume "w \<le> mw \<and> h \<le> mh \<and> w < 2 ^ 32 \<and> h < 2 ^ 32"
  then show "canvasSize fl w h mw mh
          = (if w < 2 ^ 31 then w else 300, if h < 2 ^ 31 then h else 150)"
    using canvasSize_unchanged [of w mw h mh fl] by blast
next
  assume a: "(mw < w \<or> mh < h) \<and> 0 < w \<and> w < 2 ^ 32 \<and> 0 < h \<and> h < 2 ^ 32
        \<and> 0 < mw \<and> mw < 2 ^ 31 \<and> 0 < mh \<and> mh < 2 ^ 31 \<and> rounds_like_double fl"
  then have big: "mw < w \<or> mh < h" and fl: "rounds_like_double fl"
    and w: "0 < w" "w < 2 ^ 32" and h: "0 < h" "h < 2 ^ 32"
    and mw: "0 < mw" "mw < 2 ^ 31" and mh: "0 < mh" "mh < 2 ^ 31"
    by blast+
  show "canvasSize fl w h mw mh =
          setCanvasSize (js_times fl w (js_min (js_quot fl mw w) (js_quot fl mh h)))
            (js_times fl h (js_min (js_quot fl mw w) (js_quot fl mh h)))"
    using big by (simp add: canvasSize_def Let_def)
  note s = canvasSize_scaled [OF fl big w h mw mh]
  show "canvasSize fl w h mw mh =
          (nat \<lfloor>fl (rat_of_nat w * min (fl (rat_of_nat mw / rat_of_nat w))
                                       (fl (rat_of_nat mh / rat_of_nat h)))\<rfloor>,
           nat \<lfloor>fl (rat_of_nat h * min (fl (rat_of_nat mw / rat_of_nat w))
                                       (fl (rat_of_nat mh / rat_of_nat h)))\<rfloor>)"
    by (rule s(1))
  show "fst (canvasSize fl w h mw mh) \<le> mw" by (rule s(2))
  show "snd (canvasSize fl w h mw mh) \<le> mh" by (rule s(3))
  show "rat_of_nat w * min (rat_of_nat mw / rat_of_nat w) (rat_of_nat mh / rat_of_nat h)
              - 1 - 1 / 2 ^ 21
            < rat_of_nat (fst (canvasSize fl w h mw mh))" by (rule s(4))
  show "rat_of_nat (fst (canvasSize fl w h mw mh))
            \<le> rat_of_nat w * min (rat_of_nat mw / rat_of_nat w) (rat_of_nat mh / rat_of_nat h)
                + 1 / 2 ^ 21"
    by (rule s(5))
  show "rat_of_nat h * min (rat_of_nat mw / rat_of_nat w) (rat_of_nat mh / rat_of_nat h)
              - 1 - 1 / 2 ^ 21
            < rat_of_nat (snd (canvasSize fl w h mw mh))" by (rule s(6))
  show "rat_of_nat (snd (canvasSize fl w h mw mh))
            \<le> rat_of_nat h * min (rat_of_nat mw / rat_of_nat w) (rat_of_nat mh / rat_of_nat h)
                + 1 / 2 ^ 21"
    by (rule s(7))
next
  assume run: "optimizeImageSize br f mw mh w0 = Some (Resolved g, w1)"
  from optimizeImageSize_resolved [OF run]
  show "file_type g = ''image/png''"
    and "file_name g =
            replaceExtension
              (if isHeicFile f then replaceHeicExtension (file_name f) else file_name f)"
    and "\<exists>k f' t iw ih d. imageLoad br k f' = Onload t iw ih
              \<and> canvasToBlob br k (canvasSize (toDouble br) iw ih mw mh)
                  = BlobCallback d (Some (file_size g))"
    by blast+
next
  assume "ext \<noteq> [] \<and> CHR ''.'' \<notin> set ext \<and> CHR ''/'' \<notin> set ext"
  then show "replaceExtension (stem @ ''.'' @ ext) = stem @ ''.png''"
    using replaceExtension_split by blast
next
  assume "\<not> (\<exists>stem ext. name = stem @ ''.'' @ ext \<and> ext \<noteq> []
              \<and> CHR ''.'' \<notin> set ext \<and> CHR ''/'' \<notin> set ext)"
  then have "\<not> hasExtension name"
    using hasExtension_iff by blast
  then show "replaceExtension name = name"
    by (rule replaceExtension_none)
qed

lemma rounds_like_double_exact: "rounds_like_double (\<lambda>x. x)"
  by (simp add: rounds_like_double_def)

lemma canvasSize_2048_1025: "canvasSize (\<lambda>x. x) 2048 1025 1024 1024 = (1024, 512)"
proof -
  have "\<lfloor>(1025::rat) / 2\<rfloor> = 512"
    by (rule floor_unique) simp_all
  then show ?thesis
    by (simp add: canvasSize_def setCanvasSize_def canvasAttribute_def js_quot_def js_div_def
        Let_def)
qed

lemma optimizeImageSize_loaded:
  assumes "\<not> isHeicFile f"
    and "imageLoad br (loads w) f = Onload t iw ih" and "t < 5000" and "0 < iw" and "0 < ih"
    and "imageLoad br (loads w + 1) f = Onload t' iw' ih'"
    and "canvasToBlob br (loads w + 1) (canvasSize (toDouble br) iw' ih' mw mh)
         = BlobCallback d (Some blob)" and "t' + d < 10000"
  shows "optimizeImageSize br f mw mh w =
     Some (Resolved (newFile blob (replaceExtension (file_name f)) ''image/png''),
           w\<lparr>now := now w + t + (t' + d), loads := loads w + 2\<rparr>)"
  using assms
  by (simp add: optimizeImageSize_not_heic await_def validateImageFile_def load_promise_def
      timer_def)

text \<open>
  A JPEG named \<open>photo\<close>, 2048 by 1025 pixels: the output is still named \<open>photo\<close>, and the
  canvas is 1024 by 512 pixels, which is not the ratio of 2048 to 1025. Every operation
  of this computation is exact in double arithmetic.
\<close>

theorem optimizeImageSize_name_and_ratio_counterexample:
  "optimizeImageSize
      \<lparr>imageLoad = (\<lambda>k f. Onload 50 2048 1025),
       canvasToBlob = (\<lambda>k size. if size = (1024, 512) then BlobCallback 100 (Some 90000)
                                 else NoCallback),
       heic2any = (\<lambda>k f. HeicPending), toDouble = (\<lambda>x. x)\<rparr>
      \<lparr>file_name = ''photo'', file_type = ''image/jpeg'', file_size = 500000\<rparr> 1024 1024
      \<lparr>now = 0, loads = 0, heicCalls = 0\<rparr>
    = Some (Resolved \<lparr>file_name = ''photo'', file_type = ''image/png'', file_size = 90000\<rparr>,
            \<lparr>now = 200, loads = 2, heicCalls = 0\<rparr>)
   \<and> \<not> endsWith ''photo'' ''.png''
   \<and> canvasSize (\<lambda>x. x) 2048 1025 1024 1024 = (1024, 512)
   \<and> (2048::nat) * 512 \<noteq> 1025 * 1024"
proof -
  let ?f = "\<lparr>file_name = ''photo'', file_type = ''image/jpeg'', file_size = 500000\<rparr>"
  have plain: "\<not> isHeicFile ?f"
    by (simp add: isHeicFile_def toLowerCase_def lower_char_def endsWith_def)
  have name: "replaceExtension ''photo'' = ''photo''"
    by (simp add: replaceExtension_def hasExtension_def)
  show ?thesis
    by (simp add: optimizeImageSize_loaded [OF plain] canvasSize_2048_1025 name newFile_def
        endsWith_def)
qed


theorem optimizeImageSize_output_witness:
  "canvasSize (\<lambda>x. x) 800 600 1024 1024 = (800, 600)
   \<and> canvasSize (\<lambda>x. x) 3000000000 10 4000000000 4000000000 = (300, 10)
   \<and> rounds_like_double (\<lambda>x. x)
   \<and> canvasSize (\<lambda>x. x) 2048 1025 1024 1024 = (1024, 512)
   \<and> fst (canvasSize (\<lambda>x. x) 2048 1025 1024 1024) \<le> 1024
   \<and> snd (canvasSize (\<lambda>x. x) 2048 1025 1024 1024) \<le> 1024
   \<and> optimizeImageSize
      \<lparr>imageLoad = (\<lambda>k f. Onload 50 2048 1025),
       canvasToBlob = (\<lambda>k size. if size = (1024, 512) then BlobCallback 100 (Some 90000)
                                 else NoCallback),
       heic2any = (\<lambda>k f. HeicPending), toDouble = (\<lambda>x. x)\<rparr>
      \<lparr>file_name = ''me.jpg'', file_type = ''image/jpeg'', file_size = 500000\<rparr> 1024 1024
      \<lparr>now = 0, loads = 0, heicCalls = 0\<rparr>
    = Some (Resolved \<lparr>file_name = ''me.png'', file_type = ''image/png'', file_size = 90000\<rparr>,
            \<lparr>now = 200, loads = 2, heicCalls = 0\<rparr>)
   \<and> file_name \<lparr>file_name = ''me.png'', file_type = ''image/png'', file_size = 90000\<rparr>
       = replaceExtension ''me.jpg''
   \<and> replaceExtension (''me'' @ ''.'' @ ''jpg'') = ''me'' @ ''.png''
   \<and> replaceExtension ''photo'' = ''photo''"
proof -
  let ?br = "\<lparr>imageLoad = (\<lambda>k f. Onload 50 2048 1025),
       canvasToBlob = (\<lambda>k size. if size = (1024, 512) then BlobCallback 100 (Some 90000)
                                 else NoCallback),
       heic2any = (\<lambda>k f. HeicPending), toDouble = (\<lambda>x. x)\<rparr>"
  let ?f = "\<lparr>file_name = ''me.jpg'', file_type = ''image/jpeg'', file_size = 500000\<rparr>"
  let ?g = "\<lparr>file_name = ''me.png'', file_type = ''image/png'', file_size = 90000\<rparr>"
  let ?w0 = "\<lparr>now = 0, loads = 0, heicCalls = 0\<rparr>"
  let ?w1 = "\<lparr>now = 200, loads = 2, heicCalls = 0\<rparr>"
  have small: "(800::nat) \<le> 1024 \<and> (600::nat) \<le> 1024 \<and> (800::nat) < 2 ^ 32 \<and> (600::nat) < 2 ^ 32"
    by simp
  have huge: "(3000000000::nat) \<le> 4000000000 \<and> (10::nat) \<le> 4000000000
      \<and> (3000000000::nat) < 2 ^ 32 \<and> (10::nat) < 2 ^ 32"
    by simp
  have large: "((1024::nat) < 2048 \<or> (1024::nat) < 1025) \<and> (0::nat) < 2048 \<and> (2048::nat) < 2 ^ 32
      \<and> (0::nat) < 1025 \<and> (1025::nat) < 2 ^ 32 \<and> (0::nat) < 1024 \<and> (1024::nat) < 2 ^ 31
      \<and> (0::nat) < 1024 \<and> (1024::nat) < 2 ^ 31 \<and> rounds_like_double (\<lambda>x. x)"
    using rounds_like_double_exact by simp
  have plain: "\<not> isHeicFile ?f"
    by (simp add: isHeicFile_def toLowerCase_def lower_char_def endsWith_def)
  have jpg: "replaceExtension ''me.jpg'' = ''me.png''"
    by (simp add: replaceExtension_def hasExtension_def afterLastDot_def)
  have run: "optimizeImageSize ?br ?f 1024 1024 ?w0 = Some (Resolved ?g, ?w1)"
    by (simp add: optimizeImageSize_loaded [OF plain] canvasSize_2048_1025 jpg newFile_def)
  have ext: "''jpg'' \<noteq> [] \<and> CHR ''.'' \<notin> set ''jpg'' \<and> CHR ''/'' \<notin> set ''jpg''"
    by simp
  have noext: "\<not> (\<exists>stem ext. ''photo'' = stem @ ''.'' @ ext \<and> ext \<noteq> []
              \<and> CHR ''.'' \<notin> set ext \<and> CHR ''/'' \<notin> set ext)"
  proof
    assume "\<exists>stem ext. ''photo'' = stem @ ''.'' @ ext \<and> ext \<noteq> []
              \<and> CHR ''.'' \<notin> set ext \<and> CHR ''/'' \<notin> set ext"
    then obtain stem ext where "''photo'' = stem @ ''.'' @ ext"
      by blast
    then have "CHR ''.'' \<in> set ''photo''"
      by (metis append_Cons in_set_conv_decomp)
    then show False
      by simp
  qed
  note unchanged = optimizeImageSize_output
    [where w = 800 and h = 600 and mw = 1024 and mh = 1024 and fl = "\<lambda>x. x", THEN conjunct1]
  note default = optimizeImageSize_output
    [where w = 3000000000 and h = 10 and mw = 4000000000 and mh = 4000000000
      and fl = "\<lambda>x. x", THEN conjunct1]
  note scaled = optimizeImageSize_output
    [where w = 2048 and h = 1025 and mw = 1024 and mh = 1024 and fl = "\<lambda>x. x",
      THEN conjunct2, THEN conjunct1]
  note outfile = optimizeImageSize_output
    [where br = ?br and f = ?f and mw = 1024 and mh = 1024 and ?w0.0 = ?w0 and g = ?g
      and ?w1.0 = ?w1, THEN conjunct2, THEN conjunct2, THEN conjunct1]
  note renamed = optimizeImageSize_output
    [where ext = "''jpg''" and stem = "''me''",
      THEN conjunct2, THEN conjunct2, THEN conjunct2, THEN conjunct1]
  note kept = optimizeImageSize_output
    [where name = "''photo''",
      THEN conjunct2, THEN conjunct2, THEN conjunct2, THEN conjunct2]
  have "canvasSize (\<lambda>x. x) 800 600 1024 1024
      = (if (800::nat) < 2 ^ 31 then 800 else 300, if (600::nat) < 2 ^ 31 then 600 else 150)"
    using unchanged small by (rule mp)
  then have c1: "canvasSize (\<lambda>x. x) 800 600 1024 1024 = (800, 600)"
    by simp
  have "canvasSize (\<lambda>x. x) 3000000000 10 4000000000 4000000000
      = (if (3000000000::nat) < 2 ^ 31 then 3000000000 else 300,
         if (10::nat) < 2 ^ 31 then 10 else 150)"
    using default huge by (rule mp)
  then have c0: "canvasSize (\<lambda>x. x) 3000000000 10 4000000000 4000000000 = (300, 10)"
    by simp
  have floors: "nat \<lfloor>(2048::rat) * min (1024 / 2048) (1024 / 1025)\<rfloor> = 1024"
    "nat \<lfloor>(1025::rat) * min (1024 / 2048) (1024 / 1025)\<rfloor> = 512"
  proof -
    have m: "min ((1024::rat) / 2048) (1024 / 1025) = 1 / 2"
      by simp
    have "\<lfloor>(1025::rat) / 2\<rfloor> = 512"
      by (rule floor_unique) simp_all
    then show "nat \<lfloor>(2048::rat) * min (1024 / 2048) (1024 / 1025)\<rfloor> = 1024"
      and "nat \<lfloor>(1025::rat) * min (1024 / 2048) (1024 / 1025)\<rfloor> = 512"
      unfolding m by simp_all
  qed
  have "canvasSize (\<lambda>x. x) 2048 1025 1024 1024
      = (nat \<lfloor>rat_of_nat 2048 * min (rat_of_nat 1024 / rat_of_nat 2048)
                                      (rat_of_nat 1024 / rat_of_nat 1025)\<rfloor>,
         nat \<lfloor>rat_of_nat 1025 * min (rat_of_nat 1024 / rat_of_nat 2048)
                                      (rat_of_nat 1024 / rat_of_nat 1025)\<rfloor>)"
    by (rule scaled [THEN mp, OF large, THEN conjunct2, THEN conjunct1])
  then have c2: "canvasSize (\<lambda>x. x) 2048 1025 1024 1024 = (1024, 512)"
    using floors by simp
  have c2': "fst (canvasSize (\<lambda>x. x) 2048 1025 1024 1024) \<le> 1024"
    "snd (canvasSize (\<lambda>x. x) 2048 1025 1024 1024) \<le> 1024"
    by (rule scaled [THEN mp, OF large, THEN conjunct2, THEN conjunct2, THEN conjunct1])
      (rule scaled [THEN mp, OF large, THEN conjunct2, THEN conjunct2, THEN conjunct2,
        THEN conjunct1])
  have "file_name ?g =
      replaceExtension (if isHeicFile ?f then replaceHeicExtension (file_name ?f) else file_name ?f)"
    by (rule outfile [THEN mp, OF run, THEN conjunct2, THEN conjunct1])
  then have c3: "file_name ?g = replaceExtension ''me.jpg''"
    using plain by simp
  have c4: "replaceExtension (''me'' @ ''.'' @ ''jpg'') = ''me'' @ ''.png''"
    using renamed ext by (rule mp)
  have c5: "replaceExtension ''photo'' = ''photo''"
    using kept noext by (rule mp)
  show ?thesis
    using c1 c0 rounds_like_double_exact c2 c2' run c3 c4 c5 by (intro conjI)
qed

end
